theory Spec2Isabelle
  imports Complex_Main "HOL-Library.Multiset"
begin

section \<open>Tensors and the library operators the layers call\<close>

text \<open>
  The layers of \<^verbatim>\<open>layers.py\<close> compute on dense tensors of rank two and three.
  A tensor is modelled as nested lists in row-major order, outermost axis first, and
  its 32-bit floating-point entries as real numbers: the theorems below are about the
  algebra the layers compute, not about rounding. Every library operator is modelled on
  the shapes it accepts; on other shapes the library raises, and the theorems carry the
  shapes of their inputs as premises.
\<close>

type_synonym vec = "real list"
type_synonym mat = "real list list"
type_synonym tensor3 = "real list list list"

datatype error = ValueError | IndexError | RuntimeError | AttributeError

definition is_mat :: "nat \<Rightarrow> nat \<Rightarrow> 'a list list \<Rightarrow> bool" where
  "is_mat r c M \<longleftrightarrow> length M = r \<and> list_all (\<lambda>row. length row = c) M"

definition is_tensor3 :: "nat \<Rightarrow> nat \<Rightarrow> nat \<Rightarrow> 'a list list list \<Rightarrow> bool" where
  "is_tensor3 b r c T \<longleftrightarrow> length T = b \<and> list_all (is_mat r c) T"

definition dot :: "vec \<Rightarrow> vec \<Rightarrow> real" where
  "dot u v = sum_list (map2 (*) u v)"

text \<open>Elementwise binary operators on tensors of equal shape.\<close>

definition ew3 :: "(real \<Rightarrow> real \<Rightarrow> real) \<Rightarrow> tensor3 \<Rightarrow> tensor3 \<Rightarrow> tensor3" where
  "ew3 f a b = map2 (map2 (map2 f)) a b"

definition map3 :: "(real \<Rightarrow> real) \<Rightarrow> tensor3 \<Rightarrow> tensor3" where
  "map3 f a = map (map (map f)) a"

definition sigmoid :: "real \<Rightarrow> real" where
  "sigmoid x = 1 / (1 + exp (- x))"

definition relu :: "real \<Rightarrow> real" where
  "relu x = max 0 x"

text \<open>
  \<^verbatim>\<open>F.dropout(input, p, training)\<close>: the library rejects a probability outside
  \<open>[0, 1]\<close> whatever the training flag is; when training it zeroes each entry
  independently with probability \<open>p\<close> and scales the kept ones by \<open>1 / (1 - p)\<close>; otherwise
  it returns its input. The random draw is the argument \<open>keep\<close>, one boolean per entry.
\<close>

definition dropout :: "bool list list list \<Rightarrow> tensor3 \<Rightarrow> real \<Rightarrow> bool \<Rightarrow> error + tensor3" where
  "dropout keep x p training =
     (if p < 0 \<or> p > 1 then Inl ValueError
      else if training
        then Inr (map2 (map2 (map2 (\<lambda>kp v. if kp \<and> p < 1 then v / (1 - p) else 0))) keep x)
        else Inr x)"

text \<open>
  \<^verbatim>\<open>nn.Linear\<close>: \<open>weight\<close> has one row per output feature, \<open>bias\<close> is absent when the
  layer is built with \<^verbatim>\<open>bias=False\<close>. The layer acts on the last axis.
\<close>

record Linear =
  weight :: mat
  bias :: "vec option"

definition Linear_vec :: "Linear \<Rightarrow> vec \<Rightarrow> vec" where
  "Linear_vec l x =
     (case bias l of
        None \<Rightarrow> map (\<lambda>w. dot x w) (weight l)
      | Some b \<Rightarrow> map2 (\<lambda>w bo. dot x w + bo) (weight l) b)"

definition Linear_forward :: "Linear \<Rightarrow> tensor3 \<Rightarrow> tensor3" where
  "Linear_forward l x = map (map (Linear_vec l)) x"

definition is_Linear :: "nat \<Rightarrow> nat \<Rightarrow> Linear \<Rightarrow> bool" where
  "is_Linear n_in n_out l \<longleftrightarrow>
     is_mat n_out n_in (weight l) \<and> (case bias l of None \<Rightarrow> True | Some b \<Rightarrow> length b = n_out)"

section \<open>HighwayEncoder\<close>

record HighwayEncoder =
  transforms :: "Linear list"
  gates :: "Linear list"

text \<open>
  What \<^verbatim>\<open>HighwayEncoder(num_layers, hidden_size)\<close> builds: \<open>num_layers\<close> transforms and as
  many gates, each a linear layer with bias from \<open>hidden_size\<close> to \<open>hidden_size\<close> features.
\<close>

definition is_HighwayEncoder :: "nat \<Rightarrow> nat \<Rightarrow> HighwayEncoder \<Rightarrow> bool" where
  "is_HighwayEncoder num_layers hidden_size enc \<longleftrightarrow>
     length (transforms enc) = num_layers \<and> length (gates enc) = num_layers \<and>
     list_all (\<lambda>l. is_Linear hidden_size hidden_size l \<and> bias l \<noteq> None) (transforms enc) \<and>
     list_all (\<lambda>l. is_Linear hidden_size hidden_size l \<and> bias l \<noteq> None) (gates enc)"

text \<open>
  The body of the loop of \<^verbatim>\<open>HighwayEncoder.forward\<close>, and the loop itself over
  \<^verbatim>\<open>zip(self.gates, self.transforms)\<close>.
\<close>

definition highway_body :: "Linear \<Rightarrow> Linear \<Rightarrow> tensor3 \<Rightarrow> tensor3" where
  "highway_body gate transform x =
     (let g = map3 sigmoid (Linear_forward gate x);
          t = map3 relu (Linear_forward transform x)
      in ew3 (+) (ew3 (*) g t) (ew3 (*) (map3 (\<lambda>v. 1 - v) g) x))"

fun highway_loop :: "(Linear \<times> Linear) list \<Rightarrow> tensor3 \<Rightarrow> tensor3" where
  "highway_loop [] x = x"
| "highway_loop ((gate, transform) # rest) x = highway_loop rest (highway_body gate transform x)"

definition HighwayEncoder_forward :: "HighwayEncoder \<Rightarrow> tensor3 \<Rightarrow> tensor3" where
  "HighwayEncoder_forward enc x = highway_loop (zip (gates enc) (transforms enc)) x"

text \<open>
  The per-layer map as the specification words it, on one feature vector:
  \<open>x \<mapsto> g \<odot> t + (1 - g) \<odot> x\<close> with \<open>g = sigmoid (gate x)\<close> and \<open>t = relu (transform x)\<close>.
\<close>

definition spec_highway_layer :: "Linear \<Rightarrow> Linear \<Rightarrow> vec \<Rightarrow> vec" where
  "spec_highway_layer gate transform x =
     map (\<lambda>k. sigmoid (Linear_vec gate x ! k) * relu (Linear_vec transform x ! k)
              + (1 - sigmoid (Linear_vec gate x ! k)) * x ! k) [0..<length x]"

text \<open>A layer of the highway encoder: square, with a bias.\<close>

definition is_layer :: "nat \<Rightarrow> Linear \<Rightarrow> bool" where
  "is_layer H l \<longleftrightarrow> is_Linear H H l \<and> bias l \<noteq> None"


section \<open>Library operators on shapes\<close>


text \<open>
  \<^verbatim>\<open>tensor.size(1)\<close> and \<^verbatim>\<open>tensor.size(2)\<close> of a tensor with a first entry along the
  outer axes.
\<close>

definition size1 :: "'a list list \<Rightarrow> nat" where
  "size1 t = (case t of [] \<Rightarrow> 0 | M # _ \<Rightarrow> length M)"

definition size2 :: "'a list list list \<Rightarrow> nat" where
  "size2 t = (case t of [] \<Rightarrow> 0 | M # _ \<Rightarrow> size1 M)"

text \<open>\<^verbatim>\<open>torch.matmul\<close> of two matrices, of a batch with one matrix, and \<^verbatim>\<open>torch.bmm\<close>.\<close>

definition matmul :: "mat \<Rightarrow> mat \<Rightarrow> mat" where
  "matmul A B = map (\<lambda>row. map (dot row) (transpose B)) A"

definition matmul_bcast :: "tensor3 \<Rightarrow> mat \<Rightarrow> tensor3" where
  "matmul_bcast t W = map (\<lambda>M. matmul M W) t"

definition bmm :: "tensor3 \<Rightarrow> tensor3 \<Rightarrow> tensor3" where
  "bmm a b = map2 matmul a b"

text \<open>\<^verbatim>\<open>tensor.transpose(1, 2)\<close>.\<close>

definition transpose12 :: "tensor3 \<Rightarrow> tensor3" where
  "transpose12 t = map transpose t"

text \<open>
  \<^verbatim>\<open>tensor.expand([-1, -1, n])\<close> and \<^verbatim>\<open>tensor.expand([-1, n, -1])\<close>: an axis of size
  one is repeated \<open>n\<close> times (an axis that already has size \<open>n\<close> is kept).
\<close>

definition expand_last :: "nat \<Rightarrow> tensor3 \<Rightarrow> tensor3" where
  "expand_last n t = map (map (\<lambda>r. case r of [v] \<Rightarrow> replicate n v | _ \<Rightarrow> r)) t"

definition expand_mid :: "nat \<Rightarrow> tensor3 \<Rightarrow> tensor3" where
  "expand_mid n t = map (\<lambda>M. case M of [r] \<Rightarrow> replicate n r | _ \<Rightarrow> M) t"

text \<open>
  The two broadcasts of \<^verbatim>\<open>get_similarity_matrix\<close>: a tensor times a parameter of shape
  \<open>(1, 1, H)\<close>, and a tensor plus a parameter of shape \<open>(1)\<close>.
\<close>

fun mul_bcast :: "tensor3 \<Rightarrow> tensor3 \<Rightarrow> tensor3" where
  "mul_bcast t [[w]] = map (map (\<lambda>r. map2 (*) r w)) t"
| "mul_bcast t u = ew3 (*) t u"

fun add_bcast :: "tensor3 \<Rightarrow> vec \<Rightarrow> tensor3" where
  "add_bcast t [b] = map3 (\<lambda>v. v + b) t"
| "add_bcast t bs = map (map (\<lambda>r. map2 (+) r bs)) t"

text \<open>\<^verbatim>\<open>torch.cat(ts, dim=2)\<close> of tensors that agree on the first two axes.\<close>

fun cat_dim2 :: "tensor3 list \<Rightarrow> tensor3" where
  "cat_dim2 [] = []"
| "cat_dim2 [t] = t"
| "cat_dim2 (t # ts) = map2 (map2 (@)) t (cat_dim2 ts)"

section \<open>Constructors of the library layers\<close>

text \<open>
  The library fills a new layer's parameters with random values, and training changes
  them. A constructor is modelled with the values as an argument: a function from the
  position in the parameter to its value, so that the parameter has the shape the
  constructor gives it, whatever the values are.
\<close>

definition nn_Linear :: "nat \<Rightarrow> nat \<Rightarrow> bool \<Rightarrow> (nat \<Rightarrow> nat \<Rightarrow> real) \<Rightarrow> (nat \<Rightarrow> real) \<Rightarrow> Linear" where
  "nn_Linear in_features out_features with_bias w b =
     \<lparr>weight = map (\<lambda>f. map (\<lambda>i. w f i) [0..<in_features]) [0..<out_features],
      bias = (if with_bias then Some (map b [0..<out_features]) else None)\<rparr>"

record Conv1d =
  in_channels :: nat
  out_channels :: nat
  kernel_size :: nat
  conv_weight :: tensor3
  conv_bias :: vec

definition nn_Conv1d :: "nat \<Rightarrow> nat \<Rightarrow> nat \<Rightarrow> (nat \<Rightarrow> nat \<Rightarrow> nat \<Rightarrow> real) \<Rightarrow> (nat \<Rightarrow> real) \<Rightarrow> Conv1d" where
  "nn_Conv1d c_in c_out k w b =
     \<lparr>in_channels = c_in, out_channels = c_out, kernel_size = k,
      conv_weight = map (\<lambda>f. map (\<lambda>c. map (\<lambda>j. w f c j) [0..<k]) [0..<c_in]) [0..<c_out],
      conv_bias = map b [0..<c_out]\<rparr>"

text \<open>
  \<^verbatim>\<open>nn.Conv1d\<close> applied to a batch of shape \<open>(b, c_in, W)\<close>: output position \<open>t\<close> of a filter
  is the filter's bias plus, over the channels, the product of the filter's row with the
  \<open>k\<close> inputs from \<open>t\<close> on; there are \<open>W - k + 1\<close> positions. The library raises when the
  input is shorter than the kernel.
\<close>

definition Conv1d_forward :: "Conv1d \<Rightarrow> tensor3 \<Rightarrow> error + tensor3" where
  "Conv1d_forward conv X =
     (let W = size2 X; k = kernel_size conv in
      if W < k then Inl RuntimeError
      else Inr (map (\<lambda>Xn.
                  map2 (\<lambda>wo bo.
                     map (\<lambda>t. bo + sum_list (map2 (\<lambda>wc xc. dot wc (take k (drop t xc))) wo Xn))
                         [0..<W - k + 1])
                    (conv_weight conv) (conv_bias conv)) X))"

text \<open>
  The values of \<^verbatim>\<open>torch.max(t, dim=2)\<close>; the library raises when the axis is empty.
\<close>

definition max_dim2 :: "tensor3 \<Rightarrow> error + mat" where
  "max_dim2 t =
     (if list_all (list_all (\<lambda>r. r \<noteq> [])) t then Inr (map (map (\<lambda>r. Max (set r))) t)
      else Inl RuntimeError)"

section \<open>CNN\<close>

record CNN =
  conv1D :: Conv1d

definition CNN_init :: "nat \<Rightarrow> nat \<Rightarrow> nat \<Rightarrow> (nat \<Rightarrow> nat \<Rightarrow> nat \<Rightarrow> real) \<Rightarrow> (nat \<Rightarrow> real) \<Rightarrow> CNN" where
  "CNN_init char_emb_size f k w b = \<lparr>conv1D = nn_Conv1d char_emb_size f k w b\<rparr>"

definition CNN_forward :: "CNN \<Rightarrow> tensor3 \<Rightarrow> error + mat" where
  "CNN_forward cnn X_reshaped =
     (case Conv1d_forward (conv1D cnn) X_reshaped of
        Inl e \<Rightarrow> Inl e
      | Inr X_conv \<Rightarrow> max_dim2 (map3 relu X_conv))"

section \<open>Embedding layers\<close>

definition HighwayEncoder_init ::
  "nat \<Rightarrow> nat \<Rightarrow> (nat \<Rightarrow> (nat \<Rightarrow> nat \<Rightarrow> real) \<times> (nat \<Rightarrow> real)) \<Rightarrow>
     (nat \<Rightarrow> (nat \<Rightarrow> nat \<Rightarrow> real) \<times> (nat \<Rightarrow> real)) \<Rightarrow> HighwayEncoder" where
  "HighwayEncoder_init num_layers hidden_size t g =
     \<lparr>transforms = map (\<lambda>l. nn_Linear hidden_size hidden_size True (fst (t l)) (snd (t l)))
                         [0..<num_layers],
      gates = map (\<lambda>l. nn_Linear hidden_size hidden_size True (fst (g l)) (snd (g l)))
                  [0..<num_layers]\<rparr>"

text \<open>
  \<^verbatim>\<open>nn.Embedding\<close> applied to a matrix of indices: each index is replaced by its row of
  the table; the library raises on an index outside the table.
\<close>

definition embedding :: "mat \<Rightarrow> nat list list \<Rightarrow> error + tensor3" where
  "embedding table x =
     (if list_all (list_all (\<lambda>i. i < length table)) x
      then Inr (map (map (\<lambda>i. table ! i)) x) else Inl IndexError)"

text \<open>The values a constructor of an embedding layer draws for its parameters.\<close>

record init_values =
  conv_w :: "nat \<Rightarrow> nat \<Rightarrow> nat \<Rightarrow> real"
  conv_b :: "nat \<Rightarrow> real"
  proj_w :: "nat \<Rightarrow> nat \<Rightarrow> real"
  hwy_t :: "nat \<Rightarrow> (nat \<Rightarrow> nat \<Rightarrow> real) \<times> (nat \<Rightarrow> real)"
  hwy_g :: "nat \<Rightarrow> (nat \<Rightarrow> nat \<Rightarrow> real) \<times> (nat \<Rightarrow> real)"

record Embedding =
  emb_drop_prob :: real
  emb_embed :: mat
  emb_proj :: Linear
  emb_hwy :: HighwayEncoder

definition Embedding_init :: "mat \<Rightarrow> nat \<Rightarrow> real \<Rightarrow> init_values \<Rightarrow> Embedding" where
  "Embedding_init word_vectors hidden_size drop_prob v =
     \<lparr>emb_drop_prob = drop_prob,
      emb_embed = word_vectors,
      emb_proj = nn_Linear (size1 word_vectors) hidden_size False (proj_w v) (\<lambda>_. 0),
      emb_hwy = HighwayEncoder_init 2 hidden_size (hwy_t v) (hwy_g v)\<rparr>"

definition Embedding_forward ::
  "Embedding \<Rightarrow> bool \<Rightarrow> bool list list list \<Rightarrow> nat list list \<Rightarrow> error + tensor3" where
  "Embedding_forward self training keep x =
     (case embedding (emb_embed self) x of Inl e \<Rightarrow> Inl e | Inr emb \<Rightarrow>
      case dropout keep emb (emb_drop_prob self) training of Inl e \<Rightarrow> Inl e | Inr emb \<Rightarrow>
      let emb = Linear_forward (emb_proj self) emb;
          emb = HighwayEncoder_forward (emb_hwy self) emb
      in Inr emb)"

text \<open>
  The classes \<^verbatim>\<open>EmbeddingChar\<close> and \<^verbatim>\<open>Embedding_Char\<close> declare the same attributes; one
  record holds the attributes of an object of either class.
\<close>

record EmbeddingChar =
  ec_drop_prob :: real
  word_emb_size :: nat
  embed :: mat
  char_emb_size :: nat
  char_embed :: mat
  cnn :: CNN
  proj :: Linear
  hwy :: HighwayEncoder

type_synonym Embedding_Char = EmbeddingChar

definition EmbeddingChar_init :: "mat \<Rightarrow> mat \<Rightarrow> nat \<Rightarrow> real \<Rightarrow> init_values \<Rightarrow> EmbeddingChar" where
  "EmbeddingChar_init word_vectors char_vectors hidden_size drop_prob v =
     (let word_emb_size' = size1 word_vectors;
          char_emb_size' = size1 char_vectors;
          n_filters = word_emb_size';
          kernel_size' = 5
      in \<lparr>ec_drop_prob = drop_prob,
          word_emb_size = word_emb_size',
          embed = word_vectors,
          char_emb_size = char_emb_size',
          char_embed = char_vectors,
          cnn = CNN_init char_emb_size' n_filters kernel_size' (conv_w v) (conv_b v),
          proj = nn_Linear (2 * word_emb_size') hidden_size False (proj_w v) (\<lambda>_. 0),
          hwy = HighwayEncoder_init 2 hidden_size (hwy_t v) (hwy_g v)\<rparr>)"

text \<open>
  \<^verbatim>\<open>tensor.view(-1, n, e)\<close> of a matrix with rows of width \<open>e\<close>: the rows in groups of
  \<open>n\<close>; the library raises when the rows do not divide into such groups.
\<close>

definition view_rows :: "nat \<Rightarrow> nat \<Rightarrow> mat \<Rightarrow> error + tensor3" where
  "view_rows n e rows =
     (if n = 0 \<or> \<not> list_all (\<lambda>r. length r = e) rows \<or> length rows mod n \<noteq> 0
      then Inl RuntimeError
      else Inr (map (\<lambda>i. take n (drop (i * n) rows)) [0..<length rows div n]))"

definition EmbeddingChar_forward ::
  "EmbeddingChar \<Rightarrow> bool \<Rightarrow> bool list list list \<Rightarrow> nat list list \<Rightarrow> nat list list list \<Rightarrow>
     error + tensor3" where
  "EmbeddingChar_forward self training keep x_word x_char =
     (let seq_len = size1 x_char;
          max_word_len = size2 x_char;
          x_char = concat x_char in
      case embedding (char_embed self) x_char of Inl e \<Rightarrow> Inl e | Inr emb_char \<Rightarrow>
      let emb_char = transpose12 emb_char in
      case CNN_forward (cnn self) emb_char of Inl e \<Rightarrow> Inl e | Inr emb_char \<Rightarrow>
      case view_rows seq_len (word_emb_size self) emb_char of Inl e \<Rightarrow> Inl e | Inr emb_char \<Rightarrow>
      case embedding (embed self) x_word of Inl e \<Rightarrow> Inl e | Inr emb_word \<Rightarrow>
      let emb = cat_dim2 [emb_word, emb_char] in
      case dropout keep emb (ec_drop_prob self) training of Inl e \<Rightarrow> Inl e | Inr emb \<Rightarrow>
      let emb = Linear_forward (proj self) emb;
          emb = HighwayEncoder_forward (hwy self) emb
      in Inr emb)"

definition Embedding_Char_init :: "mat \<Rightarrow> mat \<Rightarrow> nat \<Rightarrow> real \<Rightarrow> init_values \<Rightarrow> Embedding_Char" where
  "Embedding_Char_init word_vectors char_vectors hidden_size drop_prob v =
     (let word_emb_size' = size1 word_vectors;
          char_emb_size' = size1 char_vectors;
          n_filters = word_emb_size';
          kernel_size' = 5
      in \<lparr>ec_drop_prob = drop_prob,
          word_emb_size = word_emb_size',
          embed = word_vectors,
          char_emb_size = char_emb_size',
          char_embed = char_vectors,
          cnn = CNN_init char_emb_size' n_filters kernel_size' (conv_w v) (conv_b v),
          proj = nn_Linear (2 * word_emb_size') hidden_size False (proj_w v) (\<lambda>_. 0),
          hwy = HighwayEncoder_init 2 hidden_size (hwy_t v) (hwy_g v)\<rparr>)"

definition Embedding_Char_forward ::
  "Embedding_Char \<Rightarrow> bool \<Rightarrow> bool list list list \<Rightarrow> nat list list \<Rightarrow> nat list list list \<Rightarrow>
     error + tensor3" where
  "Embedding_Char_forward self training keep x_word x_char =
     (let seq_len = size1 x_char;
          max_word_len = size2 x_char;
          x_char = concat x_char in
      case embedding (char_embed self) x_char of Inl e \<Rightarrow> Inl e | Inr emb_char \<Rightarrow>
      let emb_char = transpose12 emb_char in
      case CNN_forward (cnn self) emb_char of Inl e \<Rightarrow> Inl e | Inr emb_char \<Rightarrow>
      case view_rows seq_len (word_emb_size self) emb_char of Inl e \<Rightarrow> Inl e | Inr emb_char \<Rightarrow>
      case embedding (embed self) x_word of Inl e \<Rightarrow> Inl e | Inr emb_word \<Rightarrow>
      let emb = cat_dim2 [emb_word, emb_char] in
      case dropout keep emb (ec_drop_prob self) training of Inl e \<Rightarrow> Inl e | Inr emb \<Rightarrow>
      let emb = Linear_forward (proj self) emb;
          emb = HighwayEncoder_forward (hwy self) emb
      in Inr emb)"

section \<open>BiDAFAttention\<close>

record BiDAFAttention =
  att_drop_prob :: real
  c_weight :: mat
  q_weight :: mat
  cq_weight :: tensor3
  att_bias :: vec

text \<open>
  What \<^verbatim>\<open>BiDAFAttention(hidden_size, drop_prob)\<close> builds: \<open>c_weight\<close> and \<open>q_weight\<close> of
  shape \<open>(hidden_size, 1)\<close>, \<open>cq_weight\<close> of shape \<open>(1, 1, hidden_size)\<close> and a bias of shape
  \<open>(1)\<close>.
\<close>

definition is_BiDAFAttention :: "nat \<Rightarrow> BiDAFAttention \<Rightarrow> bool" where
  "is_BiDAFAttention hidden_size att \<longleftrightarrow>
     is_mat hidden_size 1 (c_weight att) \<and> is_mat hidden_size 1 (q_weight att) \<and>
     is_tensor3 1 1 hidden_size (cq_weight att) \<and> length (att_bias att) = 1"

text \<open>
  \<^verbatim>\<open>get_similarity_matrix\<close>. The two dropout draws are the arguments \<open>keep_c\<close> and
  \<open>keep_q\<close>.
\<close>

definition get_similarity_matrix ::
  "BiDAFAttention \<Rightarrow> bool \<Rightarrow> bool list list list \<Rightarrow> bool list list list \<Rightarrow>
     tensor3 \<Rightarrow> tensor3 \<Rightarrow> error + tensor3" where
  "get_similarity_matrix att training keep_c keep_q c q =
     (let c_len = size1 c; q_len = size1 q in
      case dropout keep_c c (att_drop_prob att) training of
        Inl e \<Rightarrow> Inl e
      | Inr c \<Rightarrow>
      (case dropout keep_q q (att_drop_prob att) training of
        Inl e \<Rightarrow> Inl e
      | Inr q \<Rightarrow>
        (let s0 = expand_last q_len (matmul_bcast c (c_weight att));
             s1 = expand_mid c_len (transpose12 (matmul_bcast q (q_weight att)));
             s2 = bmm (mul_bcast c (cq_weight att)) (transpose12 q);
             s = add_bcast (ew3 (+) (ew3 (+) s0 s1) s2) (att_bias att)
         in Inr s)))"

text \<open>
  \<^verbatim>\<open>BiDAFAttention.forward\<close>. The helper \<^verbatim>\<open>masked_softmax\<close> is imported from
  \<^verbatim>\<open>util\<close>, which is not among the sources: it is the argument \<open>masked_softmax\<close>, called
  with the logits, the mask and the axis. The masks arrive with shape
  \<open>(batch_size, c_len)\<close> and \<open>(batch_size, q_len)\<close>; \<^verbatim>\<open>view\<close> raises on a mask with another
  number of entries.
\<close>

definition BiDAFAttention_forward ::
  "(tensor3 \<Rightarrow> bool list list list \<Rightarrow> nat \<Rightarrow> tensor3) \<Rightarrow>
     BiDAFAttention \<Rightarrow> bool \<Rightarrow> bool list list list \<Rightarrow> bool list list list \<Rightarrow>
     tensor3 \<Rightarrow> tensor3 \<Rightarrow> bool list list \<Rightarrow> bool list list \<Rightarrow> error + tensor3" where
  "BiDAFAttention_forward masked_softmax att training keep_c keep_q c q c_mask q_mask =
     (let batch_size = length c; c_len = size1 c; q_len = size1 q in
      case get_similarity_matrix att training keep_c keep_q c q of
        Inl e \<Rightarrow> Inl e
      | Inr s \<Rightarrow>
        if \<not> is_mat batch_size c_len c_mask \<or> \<not> is_mat batch_size q_len q_mask
        then Inl RuntimeError
        else
          (let c_mask = map (map (\<lambda>m. [m])) c_mask;
               q_mask = map (\<lambda>r. [r]) q_mask;
               s1 = masked_softmax s q_mask 2;
               s2 = masked_softmax s c_mask 1;
               a = bmm s1 q;
               b = bmm (bmm s1 (transpose12 s2)) c;
               x = cat_dim2 [c, a, ew3 (*) c a, ew3 (*) c b]
           in Inr x))"

section \<open>RNNEncoder\<close>

text \<open>
  The recurrent modules of the library, \<^verbatim>\<open>nn.LSTM\<close>, \<^verbatim>\<open>nn.RNN\<close> and \<^verbatim>\<open>nn.GRU\<close>. A
  module holds the arguments it was built with: the sizes, the number of layers, the flags
  \<^verbatim>\<open>batch_first\<close> and \<^verbatim>\<open>bidirectional\<close>, and the dropout probability. The constructor
  raises \<^verbatim>\<open>ValueError\<close> on a dropout probability outside \<open>[0, 1]\<close>, on a hidden size that
  is not positive and on a number of layers that is not positive.
\<close>

datatype torch_rnn = LSTM | RNN | GRU

datatype rnn_module =
    TorchRNN torch_rnn nat nat int bool bool real
  | EURNNCell nat nat nat
  | GORUCell nat nat nat

definition nn_RNNBase ::
  "torch_rnn \<Rightarrow> nat \<Rightarrow> nat \<Rightarrow> int \<Rightarrow> bool \<Rightarrow> bool \<Rightarrow> real \<Rightarrow> error + rnn_module" where
  "nn_RNNBase mode input_size hidden_size num_layers batch_first bidirectional dropout_p =
     (if dropout_p < 0 \<or> dropout_p > 1 then Inl ValueError
      else if hidden_size = 0 then Inl ValueError
      else if num_layers \<le> 0 then Inl ValueError
      else Inr (TorchRNN mode input_size hidden_size num_layers batch_first bidirectional dropout_p))"

text \<open>
  Modelled from the spec: the modules \<^verbatim>\<open>urnn\<close> and \<^verbatim>\<open>goru\<close> that define
  \<^verbatim>\<open>EURNNCell\<close> and \<^verbatim>\<open>GORUCell\<close> are not among the sources. The specification calls the
  cells interchangeable implementations with matching input and output contracts, so
  building one is taken to store its arguments, as building a library module does.
\<close>

definition urnn_EURNNCell :: "nat \<Rightarrow> nat \<Rightarrow> nat \<Rightarrow> error + rnn_module" where
  "urnn_EURNNCell input_size hidden_size capacity = Inr (EURNNCell input_size hidden_size capacity)"

definition goru_GORUCell :: "nat \<Rightarrow> nat \<Rightarrow> nat \<Rightarrow> error + rnn_module" where
  "goru_GORUCell input_size hidden_size capacity = Inr (GORUCell input_size hidden_size capacity)"

text \<open>
  An \<^verbatim>\<open>RNNEncoder\<close> object: \<open>rnn\<close> is \<open>None\<close> when the attribute \<^verbatim>\<open>self.rnn\<close> was never
  assigned.
\<close>

record RNNEncoder =
  enc_drop_prob :: real
  rnn :: "rnn_module option"

definition with_module :: "real \<Rightarrow> error + rnn_module \<Rightarrow> error + RNNEncoder" where
  "with_module drop_prob built =
     (case built of Inl e \<Rightarrow> Inl e | Inr m \<Rightarrow> Inr \<lparr>enc_drop_prob = drop_prob, rnn = Some m\<rparr>)"

text \<open>\<^verbatim>\<open>RNNEncoder.__init__\<close>: an \<^verbatim>\<open>if\<close>/\<^verbatim>\<open>elif\<close> chain on \<open>rnn_type\<close> with no final \<^verbatim>\<open>else\<close>.\<close>

definition RNNEncoder_init :: "nat \<Rightarrow> nat \<Rightarrow> int \<Rightarrow> string \<Rightarrow> real \<Rightarrow> error + RNNEncoder" where
  "RNNEncoder_init input_size hidden_size num_layers rnn_type drop_prob =
     (if rnn_type = ''LSTM'' then
        with_module drop_prob
          (nn_RNNBase LSTM input_size hidden_size num_layers True True
             (if num_layers > 1 then drop_prob else 0))
      else if rnn_type = ''RNN'' then
        with_module drop_prob
          (nn_RNNBase RNN input_size hidden_size num_layers True True
             (if num_layers > 1 then drop_prob else 0))
      else if rnn_type = ''GRU'' then
        with_module drop_prob
          (nn_RNNBase GRU input_size hidden_size num_layers True True
             (if num_layers > 1 then drop_prob else 0))
      else if rnn_type = ''URNN'' then
        with_module drop_prob (urnn_EURNNCell input_size hidden_size 2)
      else if rnn_type = ''GORU'' then
        with_module drop_prob (goru_GORUCell input_size hidden_size 2)
      else Inr \<lparr>enc_drop_prob = drop_prob, rnn = None\<rparr>)"

text \<open>
  \<^verbatim>\<open>tensor.sort(0, descending=True)\<close> and \<^verbatim>\<open>tensor.sort(0)\<close> on a vector of lengths or of
  indices: the sorted values and the index each one came from. The library leaves the order
  of equal values open; here equal values keep their order.
\<close>

definition sort_descending :: "nat list \<Rightarrow> nat list \<times> nat list" where
  "sort_descending v =
     (let idx = sort_key (\<lambda>i. - int (v ! i)) [0..<length v] in (map (\<lambda>i. v ! i) idx, idx))"

definition sort_ascending :: "nat list \<Rightarrow> nat list \<times> nat list" where
  "sort_ascending v =
     (let idx = sort_key (\<lambda>i. v ! i) [0..<length v] in (map (\<lambda>i. v ! i) idx, idx))"

text \<open>Indexing along the batch axis with a vector of indices, \<^verbatim>\<open>x[idx]\<close>.\<close>

definition index_select :: "'a list \<Rightarrow> nat list \<Rightarrow> error + 'a list" where
  "index_select x idx =
     (if list_all (\<lambda>i. i < length x) idx then Inr (map (\<lambda>i. x ! i) idx) else Inl IndexError)"

text \<open>
  \<^verbatim>\<open>pack_padded_sequence(x, lengths, batch_first=True)\<close>. A packed sequence holds, for each
  batch entry, its first \<open>length\<close> positions and nothing of its padding; it is modelled as
  the list of the truncated sequences. The library raises on an empty batch, on a number
  of lengths other than the batch size, on a length that is not positive and on lengths
  that are not in decreasing order. Lengths are at most the padded length (they count the
  valid positions of the batch).
\<close>

definition pack_padded_sequence :: "tensor3 \<Rightarrow> nat list \<Rightarrow> error + mat list" where
  "pack_padded_sequence x lengths =
     (if x = [] \<or> length lengths \<noteq> length x then Inl RuntimeError
      else if \<not> list_all (\<lambda>l. 0 < l) lengths then Inl RuntimeError
      else if \<not> sorted_wrt (\<ge>) lengths then Inl RuntimeError
      else Inr (map2 take lengths x))"

text \<open>
  \<^verbatim>\<open>pad_packed_sequence(x, batch_first=True, total_length=n)\<close>: every sequence is padded
  with zero vectors up to \<open>n\<close> positions; the library raises when \<open>n\<close> is less than the
  longest sequence.
\<close>

definition feature_width :: "mat list \<Rightarrow> nat" where
  "feature_width seqs = (case concat seqs of [] \<Rightarrow> 0 | r # _ \<Rightarrow> length r)"

definition pad_packed_sequence :: "mat list \<Rightarrow> nat \<Rightarrow> error + tensor3" where
  "pad_packed_sequence seqs total_length =
     (if list_all (\<lambda>sq. length sq \<le> total_length) seqs
      then Inr (map (\<lambda>sq. sq @ replicate (total_length - length sq)
                                 (replicate (feature_width seqs) 0)) seqs)
      else Inl ValueError)"

text \<open>
  \<^verbatim>\<open>RNNEncoder.forward\<close>. What a recurrent module computes on a packed sequence is the
  argument \<open>run\<close>: it is given the module, the training flag, the random source the module
  may draw from in training, and the packed sequences. \<open>keep\<close> is the draw of the final
  dropout.
\<close>

type_synonym cell_run = "rnn_module \<Rightarrow> bool \<Rightarrow> nat \<Rightarrow> mat list \<Rightarrow> mat list"

definition RNNEncoder_forward ::
  "cell_run \<Rightarrow> RNNEncoder \<Rightarrow> bool \<Rightarrow> nat \<Rightarrow> bool list list list \<Rightarrow>
     tensor3 \<Rightarrow> nat list \<Rightarrow> error + tensor3" where
  "RNNEncoder_forward run enc training seed keep x lengths =
     (let orig_len = size1 x;
          (lengths, sort_idx) = sort_descending lengths in
      case index_select x sort_idx of Inl e \<Rightarrow> Inl e | Inr x \<Rightarrow>
      case pack_padded_sequence x lengths of Inl e \<Rightarrow> Inl e | Inr x \<Rightarrow>
      case rnn enc of None \<Rightarrow> Inl AttributeError | Some m \<Rightarrow>
      let x = run m training seed x in
      case pad_packed_sequence x orig_len of Inl e \<Rightarrow> Inl e | Inr x \<Rightarrow>
      let (_, unsort_idx) = sort_ascending sort_idx in
      case index_select x unsort_idx of Inl e \<Rightarrow> Inl e | Inr x \<Rightarrow>
      dropout keep x (enc_drop_prob enc) training)"

text \<open>
  A recurrent module returns one output sequence per input sequence, of the same length.
  \<open>is_cell run m hidden_size\<close> says that the module \<open>m\<close> does so with \<open>2 * hidden_size\<close>
  features at each position.
\<close>

definition is_cell :: "cell_run \<Rightarrow> rnn_module \<Rightarrow> nat \<Rightarrow> bool" where
  "is_cell run m hidden_size \<longleftrightarrow>
     (\<forall>training seed seqs.
        length (run m training seed seqs) = length seqs \<and>
        (\<forall>k < length seqs. is_mat (length (seqs ! k)) (2 * hidden_size) (run m training seed seqs ! k)))"

text \<open>
  What the library documents for its own recurrent modules: the output has
  \<open>num_directions * hidden_size\<close> features at each position, where \<open>num_directions\<close> is 2
  for a module built with \<^verbatim>\<open>bidirectional=True\<close> and 1 otherwise. \<open>torch_contract run\<close> says
  that \<open>run\<close> computes the library's modules; it says nothing of the cells of \<^verbatim>\<open>urnn\<close>
  and \<^verbatim>\<open>goru\<close>.
\<close>

definition num_directions :: "bool \<Rightarrow> nat" where
  "num_directions bidirectional = (if bidirectional then 2 else 1)"

definition torch_contract :: "cell_run \<Rightarrow> bool" where
  "torch_contract run \<longleftrightarrow>
     (\<forall>mode input_size hidden_size num_layers batch_first bidirectional dropout_p training seed seqs.
        length (run (TorchRNN mode input_size hidden_size num_layers batch_first bidirectional dropout_p)
                    training seed seqs) = length seqs \<and>
        (\<forall>k < length seqs.
           is_mat (length (seqs ! k)) (num_directions bidirectional * hidden_size)
             (run (TorchRNN mode input_size hidden_size num_layers batch_first bidirectional dropout_p)
                  training seed seqs ! k)))"

section \<open>BiDAFOutput\<close>

text \<open>
  A tensor of any rank, as the library stores it: the sizes of its axes and its entries
  in row-major order. \<^verbatim>\<open>tensor.squeeze()\<close> drops every axis of size one and keeps the
  entries.
\<close>

record tensor =
  dims :: "nat list"
  elems :: "real list"

definition tensor_of :: "tensor3 \<Rightarrow> tensor" where
  "tensor_of t = \<lparr>dims = [length t, size1 t, size2 t], elems = concat (concat t)\<rparr>"

definition squeeze :: "tensor \<Rightarrow> tensor" where
  "squeeze t = t\<lparr>dims := filter (\<lambda>d. d \<noteq> 1) (dims t)\<rparr>"

record BiDAFOutput =
  att_linear_1 :: Linear
  mod_linear_1 :: Linear
  out_rnn :: RNNEncoder
  att_linear_2 :: Linear
  mod_linear_2 :: Linear

text \<open>
  \<^verbatim>\<open>BiDAFOutput.__init__\<close>; \<open>a1\<close>, \<open>m1\<close>, \<open>a2\<close> and \<open>m2\<close> are the values drawn for the
  weights and biases of the four linear layers.
\<close>

definition BiDAFOutput_init ::
  "nat \<Rightarrow> real \<Rightarrow> (nat \<Rightarrow> nat \<Rightarrow> real) \<times> (nat \<Rightarrow> real) \<Rightarrow> (nat \<Rightarrow> nat \<Rightarrow> real) \<times> (nat \<Rightarrow> real) \<Rightarrow>
     (nat \<Rightarrow> nat \<Rightarrow> real) \<times> (nat \<Rightarrow> real) \<Rightarrow> (nat \<Rightarrow> nat \<Rightarrow> real) \<times> (nat \<Rightarrow> real) \<Rightarrow> error + BiDAFOutput" where
  "BiDAFOutput_init hidden_size drop_prob a1 m1 a2 m2 =
     (case RNNEncoder_init (2 * hidden_size) hidden_size 1 ''LSTM'' drop_prob of
        Inl e \<Rightarrow> Inl e
      | Inr r \<Rightarrow>
          Inr \<lparr>att_linear_1 = nn_Linear (8 * hidden_size) 1 True (fst a1) (snd a1),
               mod_linear_1 = nn_Linear (2 * hidden_size) 1 True (fst m1) (snd m1),
               out_rnn = r,
               att_linear_2 = nn_Linear (8 * hidden_size) 1 True (fst a2) (snd a2),
               mod_linear_2 = nn_Linear (2 * hidden_size) 1 True (fst m2) (snd m2)\<rparr>)"

text \<open>
  \<^verbatim>\<open>BiDAFOutput.forward\<close>. \<^verbatim>\<open>mask.sum(-1)\<close> counts the valid positions of each row of
  the mask. The helper \<^verbatim>\<open>masked_softmax\<close>, called here with \<^verbatim>\<open>log_softmax=True\<close> on the
  squeezed logits and the mask, is from \<^verbatim>\<open>util\<close>, which is not among the sources: it is
  the argument \<open>masked_log_softmax\<close>. The arguments \<^verbatim>\<open>mod\<close> and \<^verbatim>\<open>mask\<close> are written \<open>mod_1\<close>
  and \<open>mask'\<close>.
\<close>

definition BiDAFOutput_forward ::
  "cell_run \<Rightarrow> (tensor \<Rightarrow> bool list list \<Rightarrow> tensor) \<Rightarrow> BiDAFOutput \<Rightarrow> bool \<Rightarrow> nat \<Rightarrow>
     bool list list list \<Rightarrow> tensor3 \<Rightarrow> tensor3 \<Rightarrow> bool list list \<Rightarrow> error + tensor \<times> tensor" where
  "BiDAFOutput_forward run masked_log_softmax self training seed keep att mod_1 mask' =
     (let logits_1 = ew3 (+) (Linear_forward (att_linear_1 self) att)
                             (Linear_forward (mod_linear_1 self) mod_1) in
      case RNNEncoder_forward run (out_rnn self) training seed keep mod_1
             (map (\<lambda>row. length (filter (\<lambda>v. v) row)) mask') of
        Inl e \<Rightarrow> Inl e
      | Inr mod_2 \<Rightarrow>
          (let logits_2 = ew3 (+) (Linear_forward (att_linear_2 self) att)
                                  (Linear_forward (mod_linear_2 self) mod_2);
               log_p1 = masked_log_softmax (squeeze (tensor_of logits_1)) mask';
               log_p2 = masked_log_softmax (squeeze (tensor_of logits_2)) mask'
           in Inr (log_p1, log_p2)))"

section \<open>Verified properties\<close>

subsection \<open>HighwayEncoder\<close>

lemma length_Linear_vec:
  "is_Linear n m l \<Longrightarrow> bias l \<noteq> None \<Longrightarrow> length (Linear_vec l x) = m"
  by (auto simp: is_Linear_def Linear_vec_def is_mat_def split: option.splits)

lemma map2_eq_map_nth:
  "length xs = n \<Longrightarrow> length ys = n \<Longrightarrow> map2 f xs ys = map (\<lambda>k. f (xs ! k) (ys ! k)) [0..<n]"
  by (auto intro!: nth_equalityI)

lemma highway_vec:
  assumes "is_Linear H H gate" "bias gate \<noteq> None" "is_Linear H H transform" "bias transform \<noteq> None"
    and "length x = H"
  shows "map2 (+) (map2 (*) (map sigmoid (Linear_vec gate x)) (map relu (Linear_vec transform x)))
            (map2 (*) (map (\<lambda>v. 1 - v) (map sigmoid (Linear_vec gate x))) x)
         = spec_highway_layer gate transform x"
  using assms length_Linear_vec[of H H gate x] length_Linear_vec[of H H transform x]
  by (auto intro!: nth_equalityI simp: spec_highway_layer_def)

lemma length_spec_highway_layer [simp]: "length (spec_highway_layer g t x) = length x"
  by (simp add: spec_highway_layer_def)

lemma map2_map_same: "map2 f (map g xs) (map h xs) = map (\<lambda>x. f (g x) (h x)) xs"
  by (induction xs) auto

lemma map2_map_id: "map2 f (map g xs) xs = map (\<lambda>x. f (g x) x) xs"
  by (induction xs) auto

lemma highway_body_eq:
  assumes "is_Linear H H gate" "bias gate \<noteq> None" "is_Linear H H transform" "bias transform \<noteq> None"
    and "is_tensor3 B L H x"
  shows "highway_body gate transform x = map (map (spec_highway_layer gate transform)) x"
proof -
  have row: "\<And>M v. M \<in> set x \<Longrightarrow> v \<in> set M \<Longrightarrow> length v = H"
    using assms(5) by (auto simp: is_tensor3_def is_mat_def list_all_iff)
  show ?thesis
    unfolding highway_body_def Let_def ew3_def map3_def Linear_forward_def
    apply (simp add: map2_map_same map2_map_id comp_def)
    apply clarify
    subgoal for M v
      using highway_vec[OF assms(1-4), of v] row[of M v]
      by (simp add: comp_def)
    done
qed

lemma is_tensor3_map_map:
  "(\<And>v. length v = H \<Longrightarrow> length (f v) = K) \<Longrightarrow> is_tensor3 B L H x \<Longrightarrow> is_tensor3 B L K (map (map f) x)"
  by (auto simp: is_tensor3_def is_mat_def list_all_iff)

lemma highway_loop_eq:
  assumes "\<forall>(g, t) \<in> set ls. is_layer H g \<and> is_layer H t" "is_tensor3 B L H x"
  shows "highway_loop ls x = map (map (fold (\<lambda>(g, t). spec_highway_layer g t) ls)) x
         \<and> is_tensor3 B L H (highway_loop ls x)"
  using assms
proof (induction ls arbitrary: x)
  case Nil
  then show ?case by (simp add: map_idI)
next
  case (Cons p ls)
  obtain g t where p: "p = (g, t)" by (cases p)
  from Cons.prems have gt: "is_Linear H H g" "bias g \<noteq> None" "is_Linear H H t" "bias t \<noteq> None"
    by (auto simp: p is_layer_def)
  have step: "highway_body g t x = map (map (spec_highway_layer g t)) x"
    by (rule highway_body_eq[OF gt Cons.prems(2)])
  have shp: "is_tensor3 B L H (highway_body g t x)"
    unfolding step by (rule is_tensor3_map_map[OF _ Cons.prems(2)]) simp
  from Cons.prems have rest: "\<forall>(g, t) \<in> set ls. is_layer H g \<and> is_layer H t" by simp
  from Cons.IH[OF rest shp]
  have eq: "highway_loop ls (highway_body g t x)
              = map (map (fold (\<lambda>(g, t). spec_highway_layer g t) ls)) (highway_body g t x)"
    and sh: "is_tensor3 B L H (highway_loop ls (highway_body g t x))"
    by blast+
  have "highway_loop (p # ls) x = map (map (fold (\<lambda>(g, t). spec_highway_layer g t) (p # ls))) x"
    by (simp add: p eq) (simp add: step comp_def)
  moreover have "is_tensor3 B L H (highway_loop (p # ls) x)"
    using sh by (simp add: p)
  ultimately show ?case by blast
qed

lemma zip_layers:
  "is_HighwayEncoder N H enc \<Longrightarrow> \<forall>(g, t) \<in> set (zip (gates enc) (transforms enc)). is_layer H g \<and> is_layer H t"
  by (auto simp: is_HighwayEncoder_def is_layer_def list_all_iff dest: set_zip_leftD set_zip_rightD)

text \<open>
  Claim C6. For every number of layers \<open>N \<ge> 0\<close> and every input of shape \<open>(B, L, H)\<close>,
  \<^verbatim>\<open>HighwayEncoder.forward\<close> applies to each position's feature vector the composition, in
  layer order, of the \<open>N\<close> per-layer maps \<open>x \<mapsto> g \<odot> t + (1 - g) \<odot> x\<close>; the shape is
  \<open>(B, L, H)\<close> after every layer and at the end, and with no layer the encoder returns its
  input.
\<close>

theorem HighwayEncoder_forward_composition:
  assumes "is_HighwayEncoder N H enc" and "is_tensor3 B L H x"
  shows "HighwayEncoder_forward enc x =
           map (map (fold (\<lambda>(g, t). spec_highway_layer g t) (zip (gates enc) (transforms enc)))) x
       \<and> (\<forall>n \<le> N. is_tensor3 B L H (highway_loop (take n (zip (gates enc) (transforms enc))) x))
       \<and> is_tensor3 B L H (HighwayEncoder_forward enc x)
       \<and> (N = 0 \<longrightarrow> HighwayEncoder_forward enc x = x)"
proof -
  let ?ls = "zip (gates enc) (transforms enc)"
  have ls: "\<forall>(g, t) \<in> set ?ls. is_layer H g \<and> is_layer H t"
    by (rule zip_layers[OF assms(1)])
  have pre: "\<forall>(g, t) \<in> set (take n ?ls). is_layer H g \<and> is_layer H t" for n
    using ls by (auto dest: in_set_takeD)
  have "N = 0 \<Longrightarrow> ?ls = []"
    using assms(1) by (simp add: is_HighwayEncoder_def)
  then have zero: "N = 0 \<longrightarrow> HighwayEncoder_forward enc x = x"
    by (auto simp: HighwayEncoder_forward_def)
  have every: "\<forall>n \<le> N. is_tensor3 B L H (highway_loop (take n ?ls) x)"
    using highway_loop_eq[OF pre assms(2)] by blast
  from highway_loop_eq[OF ls assms(2)] zero every show ?thesis
    unfolding HighwayEncoder_forward_def by blast
qed

theorem HighwayEncoder_forward_composition_witness:
  "is_HighwayEncoder 1 1 \<lparr>transforms = [\<lparr>weight = [[1]], bias = Some [0]\<rparr>], gates = [\<lparr>weight = [[0]], bias = Some [0]\<rparr>]\<rparr>
   \<and> is_tensor3 1 1 1 [[[2::real]]]
   \<and> is_tensor3 1 1 1 (HighwayEncoder_forward \<lparr>transforms = [\<lparr>weight = [[1]], bias = Some [0]\<rparr>], gates = [\<lparr>weight = [[0]], bias = Some [0]\<rparr>]\<rparr> [[[2]]])
   \<and> HighwayEncoder_forward \<lparr>transforms = [\<lparr>weight = [[1]], bias = Some [0]\<rparr>], gates = [\<lparr>weight = [[0]], bias = Some [0]\<rparr>]\<rparr> [[[2]]] = [[[2]]]"
proof -
  let ?enc = "\<lparr>transforms = [\<lparr>weight = [[1]], bias = Some [0]\<rparr>], gates = [\<lparr>weight = [[0::real]], bias = Some [0]\<rparr>]\<rparr>"
  have h1: "is_HighwayEncoder 1 1 ?enc"
    by (simp add: is_HighwayEncoder_def is_Linear_def is_mat_def)
  have h2: "is_tensor3 1 1 1 [[[2::real]]]"
    by (simp add: is_tensor3_def is_mat_def)
  have v: "spec_highway_layer \<lparr>weight = [[0]], bias = Some [0]\<rparr> \<lparr>weight = [[1]], bias = Some [0]\<rparr> [2] = [2]"
    by (simp add: spec_highway_layer_def Linear_vec_def dot_def sigmoid_def relu_def)
  from HighwayEncoder_forward_composition[OF h1 h2] h1 h2 v show ?thesis
    by simp
qed

subsection \<open>Shapes, transposition and the similarity matrix\<close>

lemma is_matD: "is_mat r c M \<Longrightarrow> length M = r" "is_mat r c M \<Longrightarrow> i < r \<Longrightarrow> length (M ! i) = c"
  "is_mat r c M \<Longrightarrow> row \<in> set M \<Longrightarrow> length row = c"
  by (auto simp: is_mat_def list_all_iff)

lemma is_tensor3D: "is_tensor3 b r c T \<Longrightarrow> length T = b" "is_tensor3 b r c T \<Longrightarrow> n < b \<Longrightarrow> is_mat r c (T ! n)"
  "is_tensor3 b r c T \<Longrightarrow> M \<in> set T \<Longrightarrow> is_mat r c M"
  by (auto simp: is_tensor3_def list_all_iff)

lemma size1_tensor3: "is_tensor3 b r c T \<Longrightarrow> 0 < b \<Longrightarrow> size1 T = r"
  by (cases T) (auto simp: size1_def is_tensor3_def is_mat_def)

lemma transpose_rect:
  assumes "is_mat r c M" "0 < r"
  shows "transpose M = map (\<lambda>i. map (\<lambda>row. row ! i) M) [0..<c]"
proof -
  have "transpose M = map (\<lambda>i. map (\<lambda>j. M ! j ! i) [0..<length M]) [0..<c]"
    using assms by (intro transpose_rectangle) (auto simp: is_mat_def list_all_iff)
  also have "\<dots> = map (\<lambda>i. map (\<lambda>row. row ! i) M) [0..<c]"
    by (auto intro!: nth_equalityI)
  finally show ?thesis .
qed

lemma transpose_transpose_rect:
  assumes "is_mat r c M" "0 < r" "0 < c"
  shows "transpose (transpose M) = M"
proof -
  let ?T = "map (\<lambda>i. map (\<lambda>row. row ! i) M) [0..<c]"
  have T: "transpose M = ?T" by (rule transpose_rect[OF assms(1,2)])
  have "is_mat c r ?T" using assms by (auto simp: is_mat_def list_all_iff)
  from transpose_rect[OF this assms(3)] have "transpose ?T = map (\<lambda>i. map (\<lambda>row. row ! i) ?T) [0..<r]" .
  also have "\<dots> = M"
    using assms(1) by (auto intro!: nth_equalityI simp: is_matD)
  finally show ?thesis by (simp add: T)
qed

lemma column_form:
  assumes "is_mat H 1 W"
  shows "W = map (\<lambda>w. [w]) (concat W)"
proof -
  have "\<forall>r \<in> set W. \<exists>w. r = [w]"
    using assms by (auto simp: is_mat_def list_all_iff length_Suc_conv)
  then show ?thesis by (induction W) auto
qed

lemma length_concat_column: "is_mat H 1 W \<Longrightarrow> length (concat W) = H"
  by (auto simp: is_mat_def list_all_iff length_concat sum_list_triv cong: map_cong)

lemma transpose_column:
  assumes "0 < length v"
  shows "transpose (map (\<lambda>w. [w]) v) = [v]"
proof -
  have "is_mat (length v) 1 (map (\<lambda>w. [w]) v)" by (simp add: is_mat_def list_all_iff)
  from transpose_rect[OF this assms] show ?thesis by (simp add: comp_def)
qed

lemma matmul_column:
  assumes "is_mat H 1 W" "0 < H"
  shows "matmul M W = map (\<lambda>row. [dot row (concat W)]) M"
proof -
  have "transpose W = [concat W]"
    using transpose_column[of "concat W"] column_form[OF assms(1)] length_concat_column[OF assms(1)] assms(2)
    by simp
  then show ?thesis by (simp add: matmul_def)
qed

lemma dot_commute: "dot u v = dot v u"
proof -
  have "map2 (*) u v = map2 (*) v u"
    by (induction u arbitrary: v) (auto simp: zip_Cons1 zip_Cons mult.commute split: list.splits)
  then show ?thesis by (simp add: dot_def)
qed

lemma dot_mul_assoc: "dot (map2 (*) c w) q = dot c (map2 (*) w q)"
proof -
  have "map2 (*) (map2 (*) c w) q = map2 (*) c (map2 (*) w q)"
  proof (induction c arbitrary: w q)
    case Nil
    then show ?case by simp
  next
    case (Cons a c)
    show ?case by (cases w; cases q) (simp_all add: Cons.IH mult.assoc)
  qed
  then show ?thesis by (simp add: dot_def)
qed

lemma nth_map2: "n < length xs \<Longrightarrow> n < length ys \<Longrightarrow> map2 f xs ys ! n = f (xs ! n) (ys ! n)"
  by simp

lemma nth_ew3:
  assumes "n < length a" "n < length b" "i < length (a ! n)" "i < length (b ! n)"
    "j < length (a ! n ! i)" "j < length (b ! n ! i)"
  shows "ew3 f a b ! n ! i ! j = f (a ! n ! i ! j) (b ! n ! i ! j)"
  using assms by (simp add: ew3_def)

lemma is_tensor3_iff_nth:
  "is_tensor3 B L W a \<longleftrightarrow>
     length a = B \<and> (\<forall>n<B. length (a ! n) = L \<and> (\<forall>i<L. length (a ! n ! i) = W))"
  unfolding is_tensor3_def is_mat_def list_all_iff all_set_conv_all_nth by auto

lemma is_tensor3_nth:
  "is_tensor3 B L W a \<Longrightarrow> n < B \<Longrightarrow> i < L \<Longrightarrow> length (a ! n) = L \<and> length (a ! n ! i) = W"
  by (simp add: is_tensor3_iff_nth)

lemma is_tensor3I:
  assumes "length a = B" "\<And>n. n < B \<Longrightarrow> length (a ! n) = L"
    "\<And>n i. n < B \<Longrightarrow> i < L \<Longrightarrow> length (a ! n ! i) = W"
  shows "is_tensor3 B L W a"
  using assms by (simp add: is_tensor3_iff_nth)

lemma is_tensor3_ew3:
  "is_tensor3 B L W a \<Longrightarrow> is_tensor3 B L W b \<Longrightarrow> is_tensor3 B L W (ew3 f a b)"
  by (simp add: is_tensor3_iff_nth ew3_def)

lemma cq_form:
  assumes "is_tensor3 1 1 H w"
  shows "w = [[concat (concat w)]]" "length (concat (concat w)) = H"
proof -
  from assms obtain M where M: "w = [M]" "is_mat 1 H M"
    by (cases w) (auto simp: is_tensor3_def)
  then obtain r where r: "M = [r]" "length r = H"
    by (cases M) (auto simp: is_mat_def)
  show "w = [[concat (concat w)]]" "length (concat (concat w)) = H"
    using M r by simp_all
qed

lemma similarity_s0_shape:
  assumes "is_tensor3 B Lc H c" "is_mat H 1 W" "0 < H"
  shows "is_tensor3 B Lc Lq (expand_last Lq (matmul_bcast c W))"
  using assms(1)
  by (simp add: is_tensor3_iff_nth expand_last_def matmul_bcast_def matmul_column[OF assms(2,3)])

lemma similarity_s0:
  assumes "is_tensor3 B Lc H c" "is_mat H 1 W" "0 < H" "n < B" "i < Lc" "j < Lq"
  shows "expand_last Lq (matmul_bcast c W) ! n ! i ! j = dot (c ! n ! i) (concat W)"
  using assms is_tensor3_nth[OF assms(1) assms(4,5)]
  by (simp add: expand_last_def matmul_bcast_def matmul_column[OF assms(2,3)] is_tensor3D(1))

lemma similarity_s1_row:
  assumes "is_tensor3 B Lq H q" "is_mat H 1 W" "0 < H" "0 < Lq" "n < B"
  shows "expand_mid Lc (transpose12 (matmul_bcast q W)) ! n
           = replicate Lc (map (\<lambda>row. dot row (concat W)) (q ! n))"
proof -
  have len: "length (q ! n) = Lq" using is_tensor3D(2)[OF assms(1,5)] by (simp add: is_matD)
  have "transpose (map (\<lambda>row. [dot row (concat W)]) (q ! n)) = [map (\<lambda>row. dot row (concat W)) (q ! n)]"
    using transpose_column[of "map (\<lambda>row. dot row (concat W)) (q ! n)"] len assms(4)
    by (simp add: comp_def)
  then show ?thesis
    using assms(5) is_tensor3D(1)[OF assms(1)]
    by (simp add: expand_mid_def transpose12_def matmul_bcast_def matmul_column[OF assms(2,3)])
qed

lemma similarity_s1_shape:
  assumes "is_tensor3 B Lq H q" "is_mat H 1 W" "0 < H" "0 < Lq"
  shows "is_tensor3 B Lc Lq (expand_mid Lc (transpose12 (matmul_bcast q W)))"
proof (rule is_tensor3I)
  show "length (expand_mid Lc (transpose12 (matmul_bcast q W))) = B"
    using is_tensor3D(1)[OF assms(1)] by (simp add: expand_mid_def transpose12_def matmul_bcast_def)
next
  fix n assume "n < B"
  then show "length (expand_mid Lc (transpose12 (matmul_bcast q W)) ! n) = Lc"
    by (simp add: similarity_s1_row[OF assms])
next
  fix n i assume "n < B" "i < Lc"
  then show "length (expand_mid Lc (transpose12 (matmul_bcast q W)) ! n ! i) = Lq"
    using is_tensor3D(2)[OF assms(1), of n] by (simp add: similarity_s1_row[OF assms] is_matD)
qed

lemma similarity_s1:
  assumes "is_tensor3 B Lq H q" "is_mat H 1 W" "0 < H" "0 < Lq" "n < B" "i < Lc" "j < Lq"
  shows "expand_mid Lc (transpose12 (matmul_bcast q W)) ! n ! i ! j = dot (q ! n ! j) (concat W)"
  using assms(6,7) is_tensor3D(2)[OF assms(1,5)]
  by (simp add: similarity_s1_row[OF assms(1-5)] is_matD)

lemma similarity_s2_row:
  assumes "is_tensor3 B Lc H c" "is_tensor3 B Lq H q" "0 < H" "0 < Lq" "n < B"
  shows "bmm (mul_bcast c [[w]]) (transpose12 q) ! n
             = map (\<lambda>row. map (dot (map2 (*) row w)) (q ! n)) (c ! n)"
proof -
  have q: "is_mat Lq H (q ! n)" by (rule is_tensor3D(2)[OF assms(2,5)])
  have tt: "transpose (transpose (q ! n)) = q ! n"
    by (rule transpose_transpose_rect[OF q assms(4,3)])
  have lens: "length c = B" "length q = B"
    using assms(1,2) by (simp_all add: is_tensor3D(1))
  show ?thesis
    using lens assms(5) by (simp add: bmm_def transpose12_def matmul_def tt comp_def)
qed

lemma similarity_s2_shape:
  assumes "is_tensor3 B Lc H c" "is_tensor3 B Lq H q" "0 < H" "0 < Lq"
  shows "is_tensor3 B Lc Lq (bmm (mul_bcast c [[w]]) (transpose12 q))"
proof (rule is_tensor3I)
  show "length (bmm (mul_bcast c [[w]]) (transpose12 q)) = B"
    using assms(1,2) by (simp add: bmm_def transpose12_def is_tensor3D(1))
next
  fix n assume n: "n < B"
  show "length (bmm (mul_bcast c [[w]]) (transpose12 q) ! n) = Lc"
    unfolding similarity_s2_row[OF assms n] using is_tensor3D(2)[OF assms(1) n] by (simp add: is_matD)
  fix i assume "i < Lc"
  then show "length (bmm (mul_bcast c [[w]]) (transpose12 q) ! n ! i) = Lq"
    unfolding similarity_s2_row[OF assms n]
    using is_tensor3D(2)[OF assms(1) n] is_tensor3D(2)[OF assms(2) n] by (simp add: is_matD)
qed

lemma similarity_s2:
  assumes "is_tensor3 B Lc H c" "is_tensor3 B Lq H q" "0 < H" "0 < Lq" "n < B" "i < Lc" "j < Lq"
  shows "bmm (mul_bcast c [[w]]) (transpose12 q) ! n ! i ! j = dot (map2 (*) (c ! n ! i) w) (q ! n ! j)"
  unfolding similarity_s2_row[OF assms(1-5)]
  using assms(6,7) is_tensor3D(2)[OF assms(1,5)] is_tensor3D(2)[OF assms(2,5)] by (simp add: is_matD)

lemma is_tensor3_map3: "is_tensor3 B L W a \<Longrightarrow> is_tensor3 B L W (map3 f a)"
  by (simp add: is_tensor3_iff_nth map3_def)

lemma nth_map3:
  "n < length a \<Longrightarrow> i < length (a ! n) \<Longrightarrow> j < length (a ! n ! i) \<Longrightarrow> map3 f a ! n ! i ! j = f (a ! n ! i ! j)"
  by (simp add: map3_def)

lemma dropout_eval:
  "0 \<le> p \<Longrightarrow> p \<le> 1 \<Longrightarrow> dropout keep x p False = Inr x"
  by (simp add: dropout_def)

text \<open>
  Claim C2. In evaluation mode, for a context of shape \<open>(B, Lc, H)\<close> and a query of shape
  \<open>(B, Lq, H)\<close>, \<^verbatim>\<open>get_similarity_matrix\<close> returns a tensor of shape \<open>(B, Lc, Lq)\<close> whose
  entry \<open>(n, i, j)\<close> is \<open>Wc \<cdot> c_i + Wq \<cdot> q_j + c_i \<cdot> (Wcq \<odot> q_j) + bias\<close>, with \<open>Wc\<close>, \<open>Wq\<close>
  and \<open>Wcq\<close> the entries of \<open>c_weight\<close>, \<open>q_weight\<close> and \<open>cq_weight\<close> and \<open>bias\<close> the one
  entry of the bias parameter.
\<close>

theorem get_similarity_matrix_trilinear:
  assumes "is_BiDAFAttention H att" and "0 \<le> att_drop_prob att" and "att_drop_prob att \<le> 1"
    and "is_tensor3 B Lc H c" and "is_tensor3 B Lq H q" and "0 < H" and "0 < Lq"
  shows "\<exists>s. get_similarity_matrix att False keep_c keep_q c q = Inr s \<and> is_tensor3 B Lc Lq s \<and>
           (\<forall>n<B. \<forall>i<Lc. \<forall>j<Lq.
              s ! n ! i ! j = dot (concat (c_weight att)) (c ! n ! i)
                            + dot (concat (q_weight att)) (q ! n ! j)
                            + dot (c ! n ! i) (map2 (*) (concat (concat (cq_weight att))) (q ! n ! j))
                            + att_bias att ! 0)"
proof (cases "B = 0")
  case True
  with assms(4,5) have "c = []" "q = []" by (simp_all add: is_tensor3_def)
  then show ?thesis
    using True assms(2,3) cq_form(1)[of H "cq_weight att"] assms(1)
    by (cases "att_bias att")
       (auto simp: get_similarity_matrix_def dropout_eval Let_def expand_last_def expand_mid_def
          matmul_bcast_def transpose12_def bmm_def ew3_def map3_def is_tensor3_def
          is_BiDAFAttention_def length_Suc_conv)
next
  case False
  then have B: "0 < B" by simp
  from assms(1) have W: "is_mat H 1 (c_weight att)" "is_mat H 1 (q_weight att)"
    and cq: "is_tensor3 1 1 H (cq_weight att)" and lb: "length (att_bias att) = 1"
    by (simp_all add: is_BiDAFAttention_def)
  define w where "w = concat (concat (cq_weight att))"
  have cqw: "cq_weight att = [[w]]" unfolding w_def by (rule cq_form(1)[OF cq])
  obtain b where b: "att_bias att = [b]" using lb by (cases "att_bias att") auto
  let ?sa = "expand_last Lq (matmul_bcast c (c_weight att))"
  let ?sb = "expand_mid Lc (transpose12 (matmul_bcast q (q_weight att)))"
  let ?sc = "bmm (mul_bcast c [[w]]) (transpose12 q)"
  let ?sum = "ew3 (+) (ew3 (+) ?sa ?sb) ?sc"
  let ?s = "map3 (\<lambda>v. v + b) ?sum"
  have run: "get_similarity_matrix att False keep_c keep_q c q = Inr ?s"
    using assms(2,3) size1_tensor3[OF assms(4) B] size1_tensor3[OF assms(5) B]
    by (simp add: get_similarity_matrix_def dropout_eval Let_def cqw b)
  have s0: "is_tensor3 B Lc Lq ?sa"
    by (rule similarity_s0_shape[OF assms(4) W(1) assms(6)])
  have s1: "is_tensor3 B Lc Lq ?sb"
    by (rule similarity_s1_shape[OF assms(5) W(2) assms(6,7)])
  have s2: "is_tensor3 B Lc Lq ?sc"
    by (rule similarity_s2_shape[OF assms(4,5,6,7)])
  have sum: "is_tensor3 B Lc Lq ?sum"
    by (intro is_tensor3_ew3 s0 s1 s2)
  have shape: "is_tensor3 B Lc Lq ?s"
    by (rule is_tensor3_map3[OF sum])
  have entry: "?s ! n ! i ! j = dot (concat (c_weight att)) (c ! n ! i)
                            + dot (concat (q_weight att)) (q ! n ! j)
                            + dot (c ! n ! i) (map2 (*) w (q ! n ! j)) + b"
    if "n < B" "i < Lc" "j < Lq" for n i j
  proof -
    have l01: "is_tensor3 B Lc Lq (ew3 (+) ?sa ?sb)" by (intro is_tensor3_ew3 s0 s1)
    have "?s ! n ! i ! j = ?sum ! n ! i ! j + b"
      using is_tensor3_nth[OF sum that(1,2)] is_tensor3D(1)[OF sum] that
      by (intro nth_map3) simp_all
    also have "?sum ! n ! i ! j = ew3 (+) ?sa ?sb ! n ! i ! j + ?sc ! n ! i ! j"
      using l01 s2 that by (intro nth_ew3) (simp_all add: is_tensor3_iff_nth)
    also have "ew3 (+) ?sa ?sb ! n ! i ! j = ?sa ! n ! i ! j + ?sb ! n ! i ! j"
      using s0 s1 that by (intro nth_ew3) (simp_all add: is_tensor3_iff_nth)
    also have "?sa ! n ! i ! j = dot (c ! n ! i) (concat (c_weight att))"
      by (rule similarity_s0[OF assms(4) W(1) assms(6) that])
    also have "?sb ! n ! i ! j = dot (q ! n ! j) (concat (q_weight att))"
      by (rule similarity_s1[OF assms(5) W(2) assms(6,7) that])
    also have "?sc ! n ! i ! j = dot (map2 (*) (c ! n ! i) w) (q ! n ! j)"
      by (rule similarity_s2[OF assms(4,5,6,7) that])
    finally show ?thesis
      by (simp add: dot_mul_assoc dot_commute[of "concat (c_weight att)"] dot_commute[of "concat (q_weight att)"])
  qed
  show ?thesis
    using run shape entry by (auto simp: w_def b)
qed

theorem get_similarity_matrix_trilinear_witness:
  "is_BiDAFAttention 1 \<lparr>att_drop_prob = 1/10, c_weight = [[1]], q_weight = [[1]], cq_weight = [[[1]]], att_bias = [0]\<rparr>
   \<and> is_tensor3 1 1 1 [[[2::real]]] \<and> is_tensor3 1 1 1 [[[3::real]]]
   \<and> (\<exists>s. get_similarity_matrix
            \<lparr>att_drop_prob = 1/10, c_weight = [[1]], q_weight = [[1]], cq_weight = [[[1]]], att_bias = [0]\<rparr>
            False [] [] [[[2]]] [[[3]]] = Inr s \<and> is_tensor3 1 1 1 s \<and> s ! 0 ! 0 ! 0 = 11)"
proof -
  let ?att = "\<lparr>att_drop_prob = 1/10, c_weight = [[1]], q_weight = [[1]], cq_weight = [[[1]]], att_bias = [0::real]\<rparr>"
  have h1: "is_BiDAFAttention 1 ?att"
    by (simp add: is_BiDAFAttention_def is_tensor3_def is_mat_def)
  have h2: "is_tensor3 1 1 1 [[[2::real]]]" "is_tensor3 1 1 1 [[[3::real]]]"
    by (simp_all add: is_tensor3_def is_mat_def)
  have h3: "0 \<le> att_drop_prob ?att" "att_drop_prob ?att \<le> 1" by simp_all
  from get_similarity_matrix_trilinear[OF h1 h3 h2, of "[]" "[]"]
  obtain s where "get_similarity_matrix ?att False [] [] [[[2]]] [[[3]]] = Inr s" "is_tensor3 1 1 1 s"
    "s ! 0 ! 0 ! 0 = 11"
    by (auto simp: dot_def)
  with h1 h2 show ?thesis by blast
qed

subsection \<open>Matrix products and the attention fusion\<close>

lemma dot_sum_nth:
  assumes "length u = m" "length v = m"
  shows "dot u v = (\<Sum>j<m. u ! j * v ! j)"
proof -
  have "dot u v = (\<Sum>j = 0..<length (map2 (*) u v). map2 (*) u v ! j)"
    unfolding dot_def by (rule sum_list_sum_nth)
  also have "\<dots> = (\<Sum>j<m. u ! j * v ! j)"
    using assms by (intro sum.cong) auto
  finally show ?thesis .
qed

lemma is_mat_iff_nth:
  "is_mat r c M \<longleftrightarrow> length M = r \<and> (\<forall>i<r. length (M ! i) = c)"
  unfolding is_mat_def list_all_iff all_set_conv_all_nth by auto

lemma is_mat_transpose:
  assumes "is_mat r c M" "0 < r"
  shows "is_mat c r (transpose M)"
  unfolding transpose_rect[OF assms] using assms(1) by (simp add: is_mat_iff_nth)

lemma nth_transpose_rect:
  assumes "is_mat r c M" "0 < r" "k < c" "i < r"
  shows "transpose M ! k ! i = M ! i ! k"
  unfolding transpose_rect[OF assms(1,2)] using assms by (simp add: is_mat_iff_nth)

lemma matmul_rect:
  assumes "is_mat r m A" "is_mat m c B" "0 < m"
  shows "matmul A B = map (\<lambda>i. map (\<lambda>k. \<Sum>j<m. A ! i ! j * B ! j ! k) [0..<c]) [0..<r]"
proof -
  have col: "length (transpose B ! k) = m" if "k < c" for k
    using is_mat_transpose[OF assms(2,3)] that by (simp add: is_mat_iff_nth)
  have lt: "length (transpose B) = c"
    using is_mat_transpose[OF assms(2,3)] by (simp add: is_mat_iff_nth)
  have row: "map (dot (A ! i)) (transpose B) = map (\<lambda>k. \<Sum>j<m. A ! i ! j * B ! j ! k) [0..<c]"
    if "i < r" for i
  proof (rule nth_equalityI)
    show "length (map (dot (A ! i)) (transpose B)) = length (map (\<lambda>k. \<Sum>j<m. A ! i ! j * B ! j ! k) [0..<c])"
      by (simp add: lt)
  next
    fix k assume "k < length (map (dot (A ! i)) (transpose B))"
    then have k: "k < c" by (simp add: lt)
    have "dot (A ! i) (transpose B ! k) = (\<Sum>j<m. A ! i ! j * transpose B ! k ! j)"
      using assms(1) that col[OF k] by (intro dot_sum_nth) (simp_all add: is_mat_iff_nth)
    also have "\<dots> = (\<Sum>j<m. A ! i ! j * B ! j ! k)"
      using nth_transpose_rect[OF assms(2,3) k] by simp
    finally show "map (dot (A ! i)) (transpose B) ! k = map (\<lambda>k. \<Sum>j<m. A ! i ! j * B ! j ! k) [0..<c] ! k"
      using k by (simp add: lt)
  qed
  show ?thesis
    unfolding matmul_def using assms(1) row
    by (intro nth_equalityI) (simp_all add: is_mat_iff_nth)
qed

lemma is_mat_matmul:
  assumes "is_mat r m A" "is_mat m c B" "0 < m"
  shows "is_mat r c (matmul A B)"
  unfolding matmul_rect[OF assms] by (simp add: is_mat_iff_nth)

lemma nth_matmul:
  assumes "is_mat r m A" "is_mat m c B" "0 < m" "i < r" "k < c"
  shows "matmul A B ! i ! k = (\<Sum>j<m. A ! i ! j * B ! j ! k)"
  unfolding matmul_rect[OF assms(1-3)] using assms(4,5) by simp

lemma is_tensor3_iff_mat:
  "is_tensor3 B L W a \<longleftrightarrow> length a = B \<and> (\<forall>n<B. is_mat L W (a ! n))"
  unfolding is_tensor3_def list_all_iff all_set_conv_all_nth by auto

lemma is_tensor3_bmm:
  assumes "is_tensor3 B r m a" "is_tensor3 B m c b" "0 < m"
  shows "is_tensor3 B r c (bmm a b)"
  using assms by (auto simp: is_tensor3_iff_mat bmm_def intro: is_mat_matmul)

lemma nth_bmm:
  assumes "is_tensor3 B r m a" "is_tensor3 B m c b" "n < B"
  shows "bmm a b ! n = matmul (a ! n) (b ! n)"
  using assms by (simp add: is_tensor3_iff_mat bmm_def)

lemma is_tensor3_transpose12:
  assumes "is_tensor3 B r c a" "0 < r"
  shows "is_tensor3 B c r (transpose12 a)"
  using assms by (auto simp: is_tensor3_iff_mat transpose12_def intro: is_mat_transpose)

lemma nth_transpose12:
  assumes "is_tensor3 B r c a" "n < B"
  shows "transpose12 a ! n = transpose (a ! n)"
  using assms by (simp add: is_tensor3_iff_mat transpose12_def)

lemma cat_dim2_four:
  assumes "is_tensor3 B L W1 t1" "is_tensor3 B L W2 t2" "is_tensor3 B L W3 t3" "is_tensor3 B L W4 t4"
  shows "is_tensor3 B L (W1 + W2 + W3 + W4) (cat_dim2 [t1, t2, t3, t4])"
    and "n < B \<Longrightarrow> i < L \<Longrightarrow> cat_dim2 [t1, t2, t3, t4] ! n ! i = t1 ! n ! i @ t2 ! n ! i @ t3 ! n ! i @ t4 ! n ! i"
  using assms by (simp_all add: is_tensor3_iff_nth)

lemma nth_ew3_row:
  assumes "is_tensor3 B L W a" "is_tensor3 B L W b" "n < B" "i < L"
  shows "ew3 f a b ! n ! i = map2 f (a ! n ! i) (b ! n ! i)"
  using assms by (simp add: is_tensor3_iff_nth ew3_def)

lemma matmul_row:
  assumes "is_mat r m A" "is_mat m c B" "0 < m" "i < r"
  shows "matmul A B ! i = map (\<lambda>k. \<Sum>j<m. A ! i ! j * B ! j ! k) [0..<c]"
  unfolding matmul_rect[OF assms(1-3)] using assms(4) by simp

text \<open>
  Claim C1. For a context of shape \<open>(B, Lc, H)\<close> and a query of shape \<open>(B, Lq, H)\<close> with their
  masks, \<^verbatim>\<open>BiDAFAttention.forward\<close> returns a tensor of shape \<open>(B, Lc, 4 * H)\<close> whose feature
  vector at each position is \<open>c\<close>, then \<open>a\<close>, then \<open>c \<odot> a\<close>, then \<open>c \<odot> b\<close>, where
  \<open>a = s1 \<times> q\<close> and \<open>b = s1 \<times> s2\<^sup>T \<times> c\<close>, and \<open>s1\<close> and \<open>s2\<close> are what \<^verbatim>\<open>masked_softmax\<close>
  returns for the similarity matrix along the query axis and along the context axis.
\<close>

theorem BiDAFAttention_forward_fusion:
  assumes c: "is_tensor3 B Lc H c" and q: "is_tensor3 B Lq H q"
    and cm: "is_mat B Lc c_mask" and qm: "is_mat B Lq q_mask"
    and pos: "0 < B" "0 < Lc" "0 < Lq"
    and sim: "get_similarity_matrix att training keep_c keep_q c q = Inr s"
    and s1: "s1 = masked_softmax s (map (\<lambda>r. [r]) q_mask) 2" "is_tensor3 B Lc Lq s1"
    and s2: "s2 = masked_softmax s (map (map (\<lambda>m. [m])) c_mask) 1" "is_tensor3 B Lc Lq s2"
  shows "\<exists>x. BiDAFAttention_forward masked_softmax att training keep_c keep_q c q c_mask q_mask = Inr x
           \<and> is_tensor3 B Lc (4 * H) x
           \<and> (\<forall>n<B. \<forall>i<Lc.
                x ! n ! i =
                  (let a = map (\<lambda>k. \<Sum>j<Lq. s1 ! n ! i ! j * q ! n ! j ! k) [0..<H];
                       b = map (\<lambda>k. \<Sum>i'<Lc. (\<Sum>j<Lq. s1 ! n ! i ! j * s2 ! n ! i' ! j) * c ! n ! i' ! k) [0..<H]
                   in c ! n ! i @ a @ map2 (*) (c ! n ! i) a @ map2 (*) (c ! n ! i) b))"
proof -
  let ?a = "bmm s1 q"
  let ?ss = "bmm s1 (transpose12 s2)"
  let ?b = "bmm ?ss c"
  let ?x = "cat_dim2 [c, ?a, ew3 (*) c ?a, ew3 (*) c ?b]"
  have sizes: "length c = B" "size1 c = Lc" "size1 q = Lq"
    using c q pos by (simp_all add: is_tensor3D(1) size1_tensor3)
  have run: "BiDAFAttention_forward masked_softmax att training keep_c keep_q c q c_mask q_mask = Inr ?x"
    using sim cm qm by (simp add: BiDAFAttention_forward_def sizes Let_def s1(1) s2(1))
  have a: "is_tensor3 B Lc H ?a"
    by (rule is_tensor3_bmm[OF s1(2) q pos(3)])
  have s2T: "is_tensor3 B Lq Lc (transpose12 s2)"
    by (rule is_tensor3_transpose12[OF s2(2) pos(2)])
  have ss: "is_tensor3 B Lc Lc ?ss"
    by (rule is_tensor3_bmm[OF s1(2) s2T pos(3)])
  have b: "is_tensor3 B Lc H ?b"
    by (rule is_tensor3_bmm[OF ss c pos(2)])
  have ca: "is_tensor3 B Lc H (ew3 (*) c ?a)" and cb: "is_tensor3 B Lc H (ew3 (*) c ?b)"
    by (intro is_tensor3_ew3 c a b)+
  have "H + H + H + H = 4 * H" by simp
  with cat_dim2_four(1)[OF c a ca cb] have shape: "is_tensor3 B Lc (4 * H) ?x"
    by (simp only:)
  have entry: "?x ! n ! i =
        (let a = map (\<lambda>k. \<Sum>j<Lq. s1 ! n ! i ! j * q ! n ! j ! k) [0..<H];
             b = map (\<lambda>k. \<Sum>i'<Lc. (\<Sum>j<Lq. s1 ! n ! i ! j * s2 ! n ! i' ! j) * c ! n ! i' ! k) [0..<H]
         in c ! n ! i @ a @ map2 (*) (c ! n ! i) a @ map2 (*) (c ! n ! i) b)"
    if n: "n < B" and i: "i < Lc" for n i
  proof -
    have m1: "is_mat Lc Lq (s1 ! n)" and m2: "is_mat Lc Lq (s2 ! n)"
      and mq: "is_mat Lq H (q ! n)" and mc: "is_mat Lc H (c ! n)"
      using s1(2) s2(2) q c n by (simp_all add: is_tensor3_iff_mat)
    have m2T: "is_mat Lq Lc (transpose (s2 ! n))"
      by (rule is_mat_transpose[OF m2 pos(2)])
    have arow: "?a ! n ! i = map (\<lambda>k. \<Sum>j<Lq. s1 ! n ! i ! j * q ! n ! j ! k) [0..<H]"
      unfolding nth_bmm[OF s1(2) q n] by (rule matmul_row[OF m1 mq pos(3) i])
    have ssn: "?ss ! n = matmul (s1 ! n) (transpose (s2 ! n))"
      unfolding nth_bmm[OF s1(2) s2T n] nth_transpose12[OF s2(2) n] ..
    have mss: "is_mat Lc Lc (?ss ! n)"
      unfolding ssn by (rule is_mat_matmul[OF m1 m2T pos(3)])
    have ssentry: "?ss ! n ! i ! i' = (\<Sum>j<Lq. s1 ! n ! i ! j * s2 ! n ! i' ! j)" if "i' < Lc" for i'
    proof -
      have "?ss ! n ! i ! i' = (\<Sum>j<Lq. s1 ! n ! i ! j * transpose (s2 ! n) ! j ! i')"
        unfolding ssn by (rule nth_matmul[OF m1 m2T pos(3) i that])
      also have "\<dots> = (\<Sum>j<Lq. s1 ! n ! i ! j * s2 ! n ! i' ! j)"
        using nth_transpose_rect[OF m2 pos(2) _ that] by simp
      finally show ?thesis .
    qed
    have "?b ! n ! i = map (\<lambda>k. \<Sum>i'<Lc. ?ss ! n ! i ! i' * c ! n ! i' ! k) [0..<H]"
      unfolding nth_bmm[OF ss c n] by (rule matmul_row[OF mss mc pos(2) i])
    also have "\<dots> = map (\<lambda>k. \<Sum>i'<Lc. (\<Sum>j<Lq. s1 ! n ! i ! j * s2 ! n ! i' ! j) * c ! n ! i' ! k) [0..<H]"
      using ssentry by simp
    finally have brow: "?b ! n ! i =
        map (\<lambda>k. \<Sum>i'<Lc. (\<Sum>j<Lq. s1 ! n ! i ! j * s2 ! n ! i' ! j) * c ! n ! i' ! k) [0..<H]" .
    have "?x ! n ! i = c ! n ! i @ ?a ! n ! i @ ew3 (*) c ?a ! n ! i @ ew3 (*) c ?b ! n ! i"
      by (rule cat_dim2_four(2)[OF c a ca cb n i])
    also have "ew3 (*) c ?a ! n ! i = map2 (*) (c ! n ! i) (?a ! n ! i)"
      by (rule nth_ew3_row[OF c a n i])
    also have "ew3 (*) c ?b ! n ! i = map2 (*) (c ! n ! i) (?b ! n ! i)"
      by (rule nth_ew3_row[OF c b n i])
    finally show ?thesis
      unfolding arow brow Let_def .
  qed
  from run shape entry show ?thesis by blast
qed

theorem BiDAFAttention_forward_fusion_witness:
  "is_tensor3 1 1 4 [[[1, 2, 3, 4::real]]] \<and> is_tensor3 1 1 4 [[[1, 0, 1, 0::real]]]
   \<and> is_mat 1 1 [[True]]
   \<and> get_similarity_matrix \<lparr>att_drop_prob = 1/10, c_weight = [[1],[0],[0],[0]], q_weight = [[0],[1],[0],[0]], cq_weight = [[[1,1,1,1]]], att_bias = [0]\<rparr> False [] [] [[[1, 2, 3, 4]]] [[[1, 0, 1, 0]]] = Inr [[[5]]]
   \<and> is_tensor3 1 1 1 ((\<lambda>s m d. map3 (\<lambda>v. 1) s) [[[5]]] [[[True]]] 2)
   \<and> (\<exists>x. BiDAFAttention_forward (\<lambda>s m d. map3 (\<lambda>v. 1) s) \<lparr>att_drop_prob = 1/10, c_weight = [[1],[0],[0],[0]], q_weight = [[0],[1],[0],[0]], cq_weight = [[[1,1,1,1]]], att_bias = [0]\<rparr> False [] [] [[[1, 2, 3, 4]]] [[[1, 0, 1, 0]]] [[True]] [[True]] = Inr x
          \<and> is_tensor3 1 1 16 x
          \<and> x ! 0 ! 0 = [1, 2, 3, 4, 1, 0, 1, 0, 1, 0, 3, 0, 1, 4, 9, 16])"
proof -
  let ?att = "\<lparr>att_drop_prob = 1/10, c_weight = [[1],[0],[0],[0]], q_weight = [[0],[1],[0],[0]], cq_weight = [[[1,1,1,1]]], att_bias = [0]\<rparr>"
  let ?msm = "(\<lambda>s m d. map3 (\<lambda>v. 1) s) :: tensor3 \<Rightarrow> bool list list list \<Rightarrow> nat \<Rightarrow> tensor3"
  have c: "is_tensor3 1 1 4 [[[1, 2, 3, 4::real]]]" and q: "is_tensor3 1 1 4 [[[1, 0, 1, 0::real]]]"
    and m: "is_mat 1 1 [[True]]"
    by (simp_all add: is_tensor3_def is_mat_def)
  have sim: "get_similarity_matrix ?att False [] [] [[[1, 2, 3, 4]]] [[[1, 0, 1, 0]]] = Inr [[[5]]]"
    by (simp add: get_similarity_matrix_def dropout_def size1_def expand_last_def expand_mid_def
        matmul_bcast_def matmul_def transpose12_def bmm_def ew3_def map3_def dot_def)
  have pos: "0 < (1::nat)" by simp
  have e1: "[[[1::real]]] = ?msm [[[5]]] (map (\<lambda>r. [r]) [[True]]) 2"
    and e2: "[[[1::real]]] = ?msm [[[5]]] (map (map (\<lambda>m. [m])) [[True]]) 1"
    by (simp_all add: map3_def)
  have sh1: "is_tensor3 1 1 1 [[[1::real]]]"
    by (simp add: is_tensor3_def is_mat_def)
  have sh: "is_tensor3 1 1 1 (?msm [[[5]]] [[[True]]] 2)"
    by (simp add: map3_def is_tensor3_def is_mat_def)
  have u4: "[0..<4] = [0, 1, 2, 3::nat]" by code_simp
  note inst = BiDAFAttention_forward_fusion[where masked_softmax = ?msm and ?s1.0 = "[[[1]]]" and ?s2.0 = "[[[1]]]",
      OF c q m m pos pos pos sim e1 sh1 e2 sh1]
  from inst obtain x where x: "BiDAFAttention_forward ?msm ?att False [] [] [[[1, 2, 3, 4]]] [[[1, 0, 1, 0]]] [[True]] [[True]] = Inr x"
    "is_tensor3 1 1 (4 * 4) x"
    and row: "\<forall>n<1. \<forall>i<1. x ! n ! i =
          (let a = map (\<lambda>k. \<Sum>j<1. [[[1::real]]] ! n ! i ! j * [[[1, 0, 1, 0]]] ! n ! j ! k) [0..<4];
               b = map (\<lambda>k. \<Sum>i'<1. (\<Sum>j<1. [[[1::real]]] ! n ! i ! j * [[[1]]] ! n ! i' ! j) * [[[1, 2, 3, 4]]] ! n ! i' ! k) [0..<4]
           in [[[1, 2, 3, 4]]] ! n ! i @ a @ map2 (*) ([[[1, 2, 3, 4]]] ! n ! i) a @ map2 (*) ([[[1, 2, 3, 4]]] ! n ! i) b)"
    by blast
  from row have "x ! 0 ! 0 =
          (let a = map (\<lambda>k. \<Sum>j<1. [[[1::real]]] ! 0 ! 0 ! j * [[[1, 0, 1, 0]]] ! 0 ! j ! k) [0..<4];
               b = map (\<lambda>k. \<Sum>i'<1. (\<Sum>j<1. [[[1::real]]] ! 0 ! 0 ! j * [[[1]]] ! 0 ! i' ! j) * [[[1, 2, 3, 4]]] ! 0 ! i' ! k) [0..<4]
           in [[[1, 2, 3, 4]]] ! 0 ! 0 @ a @ map2 (*) ([[[1, 2, 3, 4]]] ! 0 ! 0) a @ map2 (*) ([[[1, 2, 3, 4]]] ! 0 ! 0) b)"
    by blast
  then have r: "x ! 0 ! 0 = [1, 2, 3, 4, 1, 0, 1, 0, 1, 0, 3, 0, 1, 4, 9, 16]"
    by (simp add: u4)
  from x(2) have "is_tensor3 1 1 16 x" by simp
  with x(1) r c q m sim sh show ?thesis by blast
qed

subsection \<open>RNNEncoder: sorting, packing and padding\<close>

lemma sort_descending_idx:
  assumes "sort_descending v = (vs, idx)"
  shows "mset idx = mset [0..<length v]" and "length idx = length v"
    and "set idx = {0..<length v}" and "distinct idx"
    and "vs = map (\<lambda>i. v ! i) idx" and "sorted_wrt (\<ge>) vs"
proof -
  let ?f = "\<lambda>i. - int (v ! i)"
  from assms have idx: "idx = sort_key ?f [0..<length v]" and vs: "vs = map (\<lambda>i. v ! i) idx"
    by (auto simp: sort_descending_def Let_def)
  show "mset idx = mset [0..<length v]" by (simp add: idx)
  show "length idx = length v" by (simp add: idx)
  show "set idx = {0..<length v}" by (simp add: idx)
  show "distinct idx" by (simp add: idx)
  show "vs = map (\<lambda>i. v ! i) idx" by (rule vs)
  have "sorted (map ?f idx)" unfolding idx by (rule sorted_sort_key)
  then have "sorted_wrt (\<lambda>a b. ?f a \<le> ?f b) idx"
    by (simp add: sorted_wrt_map)
  then have "sorted_wrt (\<lambda>a b. v ! a \<ge> v ! b) idx"
    by (rule sorted_wrt_mono_rel[rotated]) simp
  then show "sorted_wrt (\<ge>) vs"
    by (simp add: vs sorted_wrt_map)
qed

lemma sort_ascending_inverse:
  assumes "mset idx = mset [0..<B]" and "sort_ascending idx = (vs, unsort_idx)"
  shows "length unsort_idx = B" and "set unsort_idx = {0..<B}"
    and "\<And>k. k < B \<Longrightarrow> unsort_idx ! (idx ! k) = k"
proof -
  have len: "length idx = B" using assms(1) by (metis length_upt mset_eq_length minus_nat.diff_0)
  have dist: "distinct idx" using assms(1) by (metis distinct_upt mset_eq_imp_distinct_iff)
  have setidx: "set idx = {0..<B}" using assms(1) by (metis mset_eq_setD set_upt)
  from assms(2) have un: "unsort_idx = sort_key (\<lambda>i. idx ! i) [0..<B]"
    by (auto simp: sort_ascending_def Let_def len)
  show l: "length unsort_idx = B" by (simp add: un)
  show s: "set unsort_idx = {0..<B}" by (simp add: un)
  have "sorted (map (\<lambda>i. idx ! i) unsort_idx)" unfolding un by (rule sorted_sort_key)
  moreover have "mset (map (\<lambda>i. idx ! i) unsort_idx) = mset [0..<B]"
  proof -
    have "mset (map (\<lambda>i. idx ! i) unsort_idx) = image_mset (\<lambda>i. idx ! i) (mset [0..<B])"
      by (simp add: un)
    also have "\<dots> = mset (map (\<lambda>i. idx ! i) [0..<B])" by simp
    also have "map (\<lambda>i. idx ! i) [0..<B] = idx" using map_nth[of idx] len by simp
    finally show ?thesis by (simp add: assms(1))
  qed
  ultimately have "sort [0..<B] = map (\<lambda>i. idx ! i) unsort_idx"
    by (intro properties_for_sort) simp_all
  then have eq: "map (\<lambda>i. idx ! i) unsort_idx = [0..<B]"
    by (simp add: sorted_sort_id)
  fix k assume k: "k < B"
  have ik: "idx ! k < B" using setidx len k by (metis atLeastLessThan_iff nth_mem)
  have "map (\<lambda>i. idx ! i) unsort_idx ! (idx ! k) = [0..<B] ! (idx ! k)" by (simp add: eq)
  then have "idx ! (unsort_idx ! (idx ! k)) = idx ! k"
    using ik l by simp
  moreover have "unsort_idx ! (idx ! k) < B"
    using s l ik by (metis atLeastLessThan_iff nth_mem)
  ultimately show "unsort_idx ! (idx ! k) = k"
    using dist len k by (simp add: nth_eq_iff_index_eq)
qed

lemma feature_width_uniform:
  assumes "seqs \<noteq> []" "hd seqs \<noteq> []" "\<forall>r \<in> set (hd seqs). length r = w"
  shows "feature_width seqs = w"
proof -
  obtain sq rest where sq: "seqs = sq # rest" using assms(1) by (cases seqs) auto
  with assms(2) obtain r rs where r: "sq = r # rs" by (cases sq) auto
  show ?thesis using assms(3) by (simp add: feature_width_def sq r)
qed

lemma index_select_ok:
  "set idx \<subseteq> {0..<length x} \<Longrightarrow> index_select x idx = Inr (map (\<lambda>i. x ! i) idx)"
  by (auto simp: index_select_def list_all_iff)

lemma RNNEncoder_forward_steps:
  assumes x: "is_tensor3 B L W x" and B: "0 < B" and len: "length lengths = B"
    and rng: "\<forall>l \<in> set lengths. 0 < l \<and> l \<le> L"
    and m: "rnn enc = Some m" and cell: "is_cell run m h"
    and idx: "idx = snd (sort_descending lengths)"
    and out: "out = run m training seed (map (\<lambda>j. take (lengths ! j) (x ! j)) idx)"
  shows "\<exists>y. RNNEncoder_forward run enc training seed keep x lengths
               = dropout keep y (enc_drop_prob enc) training
           \<and> is_tensor3 B L (2 * h) y
           \<and> (\<forall>k<B. y ! (idx ! k) = out ! k @ replicate (L - lengths ! (idx ! k)) (replicate (2 * h) 0))"
proof -
  obtain vs where sd: "sort_descending lengths = (vs, idx)"
    using idx by (cases "sort_descending lengths") simp
  note S = sort_descending_idx[OF sd, unfolded len]
  obtain ws unsort where sa: "sort_ascending idx = (ws, unsort)"
    by (cases "sort_ascending idx") simp
  note U = sort_ascending_inverse[OF S(1) sa]
  have lx: "length x = B" and L: "size1 x = L"
    using x B by (simp_all add: is_tensor3D(1) size1_tensor3)
  have idxB: "idx ! k < B" if "k < B" for k
    using S(2,3) that by (metis atLeastLessThan_iff nth_mem)
  let ?xs = "map (\<lambda>i. x ! i) idx"
  let ?packed = "map (\<lambda>j. take (lengths ! j) (x ! j)) idx"
  have sel1: "index_select x idx = Inr ?xs"
    by (rule index_select_ok) (simp add: S(3) lx)
  have vspos: "list_all (\<lambda>l. 0 < l) vs"
    using rng S(3) len by (auto simp: S(5) list_all_iff)
  have pack: "pack_padded_sequence ?xs vs = Inr ?packed"
    using B S(2) vspos S(6)
    by (auto simp: pack_padded_sequence_def S(5) map2_map_same)
  have lp: "length ?packed = B" by (simp add: S(2))
  have lpk: "length (?packed ! k) = lengths ! (idx ! k)" if "k < B" for k
  proof -
    have "lengths ! (idx ! k) \<le> L" using rng idxB[OF that] len by simp
    moreover have "length (x ! (idx ! k)) = L"
      using is_tensor3D(2)[OF x idxB[OF that]] by (simp add: is_matD)
    ultimately show ?thesis using that S(2) by simp
  qed
  from cell have c1: "length (run m training seed ?packed) = length ?packed"
    and c2: "\<forall>k < length ?packed.
               is_mat (length (?packed ! k)) (2 * h) (run m training seed ?packed ! k)"
    unfolding is_cell_def by blast+
  have lo: "length out = B"
    unfolding out c1 by (rule lp)
  have ok: "is_mat (lengths ! (idx ! k)) (2 * h) (out ! k)" if "k < B" for k
  proof -
    from c2 that lp have "is_mat (length (?packed ! k)) (2 * h) (run m training seed ?packed ! k)"
      by blast
    then show ?thesis unfolding lpk[OF that] out .
  qed
  have lok: "length (out ! k) = lengths ! (idx ! k)" if "k < B" for k
    using ok[OF that] by (simp add: is_matD)
  have fw: "feature_width out = 2 * h"
  proof (rule feature_width_uniform)
    show "out \<noteq> []" using lo B by auto
    then have hd: "hd out = out ! 0" by (simp add: hd_conv_nth)
    have "0 < lengths ! (idx ! 0)" using rng idxB[OF B] len by simp
    then show "hd out \<noteq> []" using lok[OF B] hd by auto
    show "\<forall>r \<in> set (hd out). length r = 2 * h"
      using ok[OF B] hd by (simp add: is_mat_def list_all_iff)
  qed
  let ?padded = "map (\<lambda>sq. sq @ replicate (L - length sq) (replicate (2 * h) 0)) out"
  have fits: "list_all (\<lambda>sq. length sq \<le> L) out"
    unfolding list_all_iff all_set_conv_all_nth lo
    using lok rng idxB len by auto
  have pad: "pad_packed_sequence out L = Inr ?padded"
    using fits by (simp add: pad_packed_sequence_def fw)
  have pk: "?padded ! k = out ! k @ replicate (L - lengths ! (idx ! k)) (replicate (2 * h) 0)"
    if "k < B" for k
    using that lo lok by simp
  have pmat: "is_mat L (2 * h) (?padded ! k)" if "k < B" for k
  proof -
    have "lengths ! (idx ! k) \<le> L" using rng idxB[OF that] len by simp
    then show ?thesis
      unfolding pk[OF that] using ok[OF that]
      by (auto simp: is_mat_def list_all_iff)
  qed
  let ?y = "map (\<lambda>i. ?padded ! i) unsort"
  have sel2: "index_select ?padded unsort = Inr ?y"
    by (rule index_select_ok) (simp add: U(2) lo)
  have run: "RNNEncoder_forward run enc training seed keep x lengths
               = dropout keep ?y (enc_drop_prob enc) training"
    unfolding RNNEncoder_forward_def L Let_def sd
    by (simp add: sel1 pack m out[symmetric] pad sa sel2 del: map_map)
  have unB: "unsort ! n < B" if "n < B" for n
    using U(1,2) that by (metis atLeastLessThan_iff nth_mem)
  have shape: "is_tensor3 B L (2 * h) ?y"
    unfolding is_tensor3_iff_mat using U(1) pmat unB by (simp del: map_map)
  have entry: "?y ! (idx ! k) = out ! k @ replicate (L - lengths ! (idx ! k)) (replicate (2 * h) 0)"
    if "k < B" for k
    using U(1) U(3)[OF that] idxB[OF that] pk[OF that] by (simp del: map_map)
  from run shape entry show ?thesis by blast
qed

lemma RNNEncoder_forward_no_cell:
  assumes x: "is_tensor3 B L W x" and B: "0 < B" and len: "length lengths = B"
    and rng: "\<forall>l \<in> set lengths. 0 < l \<and> l \<le> L"
    and m: "rnn enc = None"
  shows "RNNEncoder_forward run enc training seed keep x lengths = Inl AttributeError"
proof -
  obtain vs idx where sd: "sort_descending lengths = (vs, idx)"
    by (cases "sort_descending lengths") simp
  note S = sort_descending_idx[OF sd, unfolded len]
  have lx: "length x = B" using x by (simp add: is_tensor3D(1))
  have sel1: "index_select x idx = Inr (map (\<lambda>i. x ! i) idx)"
    by (rule index_select_ok) (simp add: S(3) lx)
  have vspos: "list_all (\<lambda>l. 0 < l) vs"
    using rng S(3) len by (auto simp: S(5) list_all_iff)
  have pack: "pack_padded_sequence (map (\<lambda>i. x ! i) idx) vs
                = Inr (map (\<lambda>j. take (lengths ! j) (x ! j)) idx)"
    using B S(2) vspos S(6)
    by (auto simp: pack_padded_sequence_def S(5) map2_map_same)
  show ?thesis
    unfolding RNNEncoder_forward_def Let_def sd
    by (simp add: sel1 pack m del: map_map)
qed

lemma dropout_shape:
  assumes "0 \<le> p" "p \<le> 1" "is_tensor3 B L W y" "training \<longrightarrow> is_tensor3 B L W keep"
  shows "\<exists>r. dropout keep y p training = Inr r \<and> is_tensor3 B L W r"
  using assms by (auto simp: dropout_def is_tensor3_iff_nth)

lemma torch_contract_cell:
  assumes "torch_contract run"
  shows "is_cell run (TorchRNN mode input_size hidden_size num_layers batch_first True dropout_p) hidden_size"
proof -
  from assms have A: "length (run (TorchRNN mode input_size hidden_size num_layers batch_first True dropout_p)
                    training seed seqs) = length seqs \<and>
        (\<forall>k < length seqs.
           is_mat (length (seqs ! k)) (num_directions True * hidden_size)
             (run (TorchRNN mode input_size hidden_size num_layers batch_first True dropout_p)
                  training seed seqs ! k))" for training seed seqs
    unfolding torch_contract_def by blast
  show ?thesis
    unfolding is_cell_def using A by (simp add: num_directions_def)
qed

lemma RNNEncoder_init_torch:
  assumes "rnn_type \<in> {''LSTM'', ''RNN'', ''GRU''}"
  shows "\<exists>mode. RNNEncoder_init input_size hidden_size num_layers rnn_type drop_prob
           = (if (num_layers > 1 \<and> (drop_prob < 0 \<or> 1 < drop_prob)) \<or> hidden_size = 0 \<or> num_layers \<le> 0
              then Inl ValueError
              else Inr \<lparr>enc_drop_prob = drop_prob,
                        rnn = Some (TorchRNN mode input_size hidden_size num_layers True True
                                      (if num_layers > 1 then drop_prob else 0))\<rparr>)"
  using assms
  by (auto simp: RNNEncoder_init_def with_module_def nn_RNNBase_def)




subsection \<open>RNNEncoder: construction\<close>

theorem RNNEncoder_init_accepts_bad_configuration:
  "RNNEncoder_init 4 4 1 ''CNN'' 0 = Inr \<lparr>enc_drop_prob = 0, rnn = None\<rparr>
   \<and> RNNEncoder_init 4 4 1 ''LSTM'' 2
       = Inr \<lparr>enc_drop_prob = 2, rnn = Some (TorchRNN LSTM 4 4 1 True True 0)\<rparr>"
  by (simp add: RNNEncoder_init_def with_module_def nn_RNNBase_def)

text \<open>
  Claim C5, as amended. An \<open>rnn_type\<close> outside the five recognized values does not stop
  the construction: the encoder is built without a recurrent module, and the first forward
  call on a well-formed batch fails with \<^verbatim>\<open>AttributeError\<close>. \<open>drop_prob\<close> is stored
  unchecked. For \<open>LSTM\<close>, \<open>RNN\<close> and \<open>GRU\<close> with a positive hidden size and a positive
  number of layers, the construction fails on \<open>drop_prob\<close> exactly when \<open>num_layers > 1\<close> and
  \<open>drop_prob\<close> is outside \<open>[0, 1]\<close>, where the library constructor receives it. An encoder
  built with \<open>drop_prob\<close> outside \<open>[0, 1]\<close> fails with \<^verbatim>\<open>ValueError\<close> at the dropout of its
  first forward call on a well-formed batch; with \<open>drop_prob\<close> in \<open>[0, 1]\<close>, the value 1
  included, the construction and the forward call both succeed.
\<close>

theorem RNNEncoder_init_validation:
  assumes x: "is_tensor3 B L input_size x" and B: "0 < B" and len: "length lengths = B"
    and rng: "\<forall>l \<in> set lengths. 0 < l \<and> l \<le> L"
    and lib: "torch_contract run"
  shows "(rnn_type \<notin> {''LSTM'', ''RNN'', ''GRU'', ''URNN'', ''GORU''} \<longrightarrow>
            RNNEncoder_init input_size hidden_size num_layers rnn_type drop_prob
              = Inr \<lparr>enc_drop_prob = drop_prob, rnn = None\<rparr>
          \<and> RNNEncoder_forward run \<lparr>enc_drop_prob = drop_prob, rnn = None\<rparr> training seed keep x lengths
              = Inl AttributeError)
       \<and> (rnn_type \<in> {''LSTM'', ''RNN'', ''GRU''} \<and> 0 < hidden_size \<and> 0 < num_layers \<longrightarrow>
            (if num_layers > 1 \<and> (drop_prob < 0 \<or> 1 < drop_prob)
             then RNNEncoder_init input_size hidden_size num_layers rnn_type drop_prob = Inl ValueError
             else \<exists>enc. RNNEncoder_init input_size hidden_size num_layers rnn_type drop_prob = Inr enc
                    \<and> enc_drop_prob enc = drop_prob
                    \<and> (drop_prob < 0 \<or> 1 < drop_prob \<longrightarrow>
                         RNNEncoder_forward run enc training seed keep x lengths = Inl ValueError)
                    \<and> (0 \<le> drop_prob \<and> drop_prob \<le> 1
                           \<and> (training \<longrightarrow> is_tensor3 B L (2 * hidden_size) keep) \<longrightarrow>
                         (\<exists>r. RNNEncoder_forward run enc training seed keep x lengths = Inr r
                              \<and> is_tensor3 B L (2 * hidden_size) r))))"
proof (intro conjI impI)
  assume "rnn_type \<notin> {''LSTM'', ''RNN'', ''GRU'', ''URNN'', ''GORU''}"
  then show "RNNEncoder_init input_size hidden_size num_layers rnn_type drop_prob
              = Inr \<lparr>enc_drop_prob = drop_prob, rnn = None\<rparr>"
    by (simp add: RNNEncoder_init_def)
next
  show "RNNEncoder_forward run \<lparr>enc_drop_prob = drop_prob, rnn = None\<rparr> training seed keep x lengths
              = Inl AttributeError"
    by (rule RNNEncoder_forward_no_cell[OF x B len rng]) simp
next
  assume a: "rnn_type \<in> {''LSTM'', ''RNN'', ''GRU''} \<and> 0 < hidden_size \<and> 0 < num_layers"
  then have ty: "rnn_type \<in> {''LSTM'', ''RNN'', ''GRU''}" by blast
  from RNNEncoder_init_torch[OF ty, of input_size hidden_size num_layers drop_prob] a
  obtain mode where init: "RNNEncoder_init input_size hidden_size num_layers rnn_type drop_prob
           = (if num_layers > 1 \<and> (drop_prob < 0 \<or> 1 < drop_prob)
              then Inl ValueError
              else Inr \<lparr>enc_drop_prob = drop_prob,
                        rnn = Some (TorchRNN mode input_size hidden_size num_layers True True
                                      (if num_layers > 1 then drop_prob else 0))\<rparr>)"
    by auto
  let ?m = "TorchRNN mode input_size hidden_size num_layers True True
              (if num_layers > 1 then drop_prob else 0)"
  let ?enc = "\<lparr>enc_drop_prob = drop_prob, rnn = Some ?m\<rparr>"
  have m: "rnn ?enc = Some ?m" by simp
  have cell: "is_cell run ?m hidden_size" by (rule torch_contract_cell[OF lib])
  from RNNEncoder_forward_steps[OF x B len rng m cell refl refl, of training seed keep]
  obtain y where y: "RNNEncoder_forward run ?enc training seed keep x lengths
                       = dropout keep y drop_prob training"
    "is_tensor3 B L (2 * hidden_size) y"
    by auto
  have bad: "drop_prob < 0 \<or> 1 < drop_prob \<longrightarrow>
               RNNEncoder_forward run ?enc training seed keep x lengths = Inl ValueError"
    unfolding y(1) by (auto simp: dropout_def)
  have good: "0 \<le> drop_prob \<and> drop_prob \<le> 1
                \<and> (training \<longrightarrow> is_tensor3 B L (2 * hidden_size) keep) \<longrightarrow>
              (\<exists>r. RNNEncoder_forward run ?enc training seed keep x lengths = Inr r
                   \<and> is_tensor3 B L (2 * hidden_size) r)"
    unfolding y(1) using dropout_shape[OF _ _ y(2), of drop_prob training keep] by blast
  show "if num_layers > 1 \<and> (drop_prob < 0 \<or> 1 < drop_prob)
        then RNNEncoder_init input_size hidden_size num_layers rnn_type drop_prob = Inl ValueError
        else \<exists>enc. RNNEncoder_init input_size hidden_size num_layers rnn_type drop_prob = Inr enc
                    \<and> enc_drop_prob enc = drop_prob
                    \<and> (drop_prob < 0 \<or> 1 < drop_prob \<longrightarrow>
                         RNNEncoder_forward run enc training seed keep x lengths = Inl ValueError)
                    \<and> (0 \<le> drop_prob \<and> drop_prob \<le> 1
                           \<and> (training \<longrightarrow> is_tensor3 B L (2 * hidden_size) keep) \<longrightarrow>
                         (\<exists>r. RNNEncoder_forward run enc training seed keep x lengths = Inr r
                              \<and> is_tensor3 B L (2 * hidden_size) r))"
  proof (cases "num_layers > 1 \<and> (drop_prob < 0 \<or> 1 < drop_prob)")
    case True
    then have e: "RNNEncoder_init input_size hidden_size num_layers rnn_type drop_prob = Inl ValueError"
      using init by simp
    show ?thesis by (subst if_P[OF True]) (rule e)
  next
    case False
    then have "RNNEncoder_init input_size hidden_size num_layers rnn_type drop_prob = Inr ?enc"
      using init by simp
    moreover have "enc_drop_prob ?enc = drop_prob" by simp
    ultimately have ex: "\<exists>enc. RNNEncoder_init input_size hidden_size num_layers rnn_type drop_prob = Inr enc
                    \<and> enc_drop_prob enc = drop_prob
                    \<and> (drop_prob < 0 \<or> 1 < drop_prob \<longrightarrow>
                         RNNEncoder_forward run enc training seed keep x lengths = Inl ValueError)
                    \<and> (0 \<le> drop_prob \<and> drop_prob \<le> 1
                           \<and> (training \<longrightarrow> is_tensor3 B L (2 * hidden_size) keep) \<longrightarrow>
                         (\<exists>r. RNNEncoder_forward run enc training seed keep x lengths = Inr r
                              \<and> is_tensor3 B L (2 * hidden_size) r))"
      using bad good by blast
    show ?thesis by (subst if_not_P[OF False]) (rule ex)
  qed
qed

theorem RNNEncoder_init_validation_witness:
  "is_tensor3 2 2 1 ([[[1], [0]], [[2], [3]]] :: tensor3) \<and> list_all (\<lambda>l. 0 < l \<and> l \<le> 2) [1, 2::nat]
   \<and> torch_contract (\<lambda>m training seed seqs. case m of
           TorchRNN mode i h n bf bd d \<Rightarrow> map (map (\<lambda>r. replicate (num_directions bd * h) (sum_list r))) seqs
         | _ \<Rightarrow> seqs)
   \<and> ''CNN'' \<notin> {''LSTM'', ''RNN'', ''GRU'', ''URNN'', ''GORU''}
   \<and> RNNEncoder_init 1 1 1 ''CNN'' 0 = Inr \<lparr>enc_drop_prob = 0, rnn = None\<rparr>
   \<and> RNNEncoder_forward (\<lambda>m training seed seqs. case m of
           TorchRNN mode i h n bf bd d \<Rightarrow> map (map (\<lambda>r. replicate (num_directions bd * h) (sum_list r))) seqs
         | _ \<Rightarrow> seqs) \<lparr>enc_drop_prob = 0, rnn = None\<rparr> False 0 [] ([[[1], [0]], [[2], [3]]] :: tensor3) [1, 2] = Inl AttributeError
   \<and> ''LSTM'' \<in> {''LSTM'', ''RNN'', ''GRU''}
   \<and> RNNEncoder_init 1 1 2 ''LSTM'' 2 = Inl ValueError
   \<and> (\<exists>enc. RNNEncoder_init 1 1 1 ''LSTM'' 2 = Inr enc
          \<and> RNNEncoder_forward (\<lambda>m training seed seqs. case m of
           TorchRNN mode i h n bf bd d \<Rightarrow> map (map (\<lambda>r. replicate (num_directions bd * h) (sum_list r))) seqs
         | _ \<Rightarrow> seqs) enc False 0 [] ([[[1], [0]], [[2], [3]]] :: tensor3) [1, 2] = Inl ValueError)
   \<and> (\<exists>enc r. RNNEncoder_init 1 1 1 ''LSTM'' 1 = Inr enc
          \<and> RNNEncoder_forward (\<lambda>m training seed seqs. case m of
           TorchRNN mode i h n bf bd d \<Rightarrow> map (map (\<lambda>r. replicate (num_directions bd * h) (sum_list r))) seqs
         | _ \<Rightarrow> seqs) enc False 0 [] ([[[1], [0]], [[2], [3]]] :: tensor3) [1, 2] = Inr r \<and> is_tensor3 2 2 (2 * 1) r)"
proof -
  let ?run = "(\<lambda>m training seed seqs. case m of
           TorchRNN mode i h n bf bd d \<Rightarrow> map (map (\<lambda>r. replicate (num_directions bd * h) (sum_list r))) seqs
         | _ \<Rightarrow> seqs)"
  have x: "is_tensor3 2 2 1 ([[[1], [0]], [[2], [3]]] :: tensor3)" by (simp add: is_tensor3_def is_mat_def)
  have rng: "\<forall>l \<in> set [1, 2::nat]. 0 < l \<and> l \<le> 2" by simp
  have rng': "list_all (\<lambda>l. 0 < l \<and> l \<le> 2) [1, 2::nat]" by simp
  have B: "0 < (2::nat)" and len: "length [1, 2::nat] = 2" by simp_all
  have lib: "torch_contract ?run"
    by (simp add: torch_contract_def is_mat_def list_all_iff)
  have t1: "''CNN'' \<notin> {''LSTM'', ''RNN'', ''GRU'', ''URNN'', ''GORU''}" by simp
  have t2: "''LSTM'' \<in> {''LSTM'', ''RNN'', ''GRU''}" by simp
  note a = RNNEncoder_init_validation[OF x B len rng lib, where rnn_type = "''CNN''" and drop_prob = 0
      and hidden_size = 1 and num_layers = 1 and training = False and seed = 0 and keep = "[]"]
  note b = RNNEncoder_init_validation[OF x B len rng lib, where rnn_type = "''LSTM''" and drop_prob = 2
      and hidden_size = 1 and num_layers = 1 and training = False and seed = 0 and keep = "[]"]
  note c = RNNEncoder_init_validation[OF x B len rng lib, where rnn_type = "''LSTM''" and drop_prob = 2
      and hidden_size = 1 and num_layers = 2 and training = False and seed = 0 and keep = "[]"]
  note d = RNNEncoder_init_validation[OF x B len rng lib, where rnn_type = "''LSTM''" and drop_prob = 1
      and hidden_size = 1 and num_layers = 1 and training = False and seed = 0 and keep = "[]"]
  from a t1 have a': "RNNEncoder_init 1 1 1 ''CNN'' 0 = Inr \<lparr>enc_drop_prob = 0, rnn = None\<rparr>"
    "RNNEncoder_forward ?run \<lparr>enc_drop_prob = 0, rnn = None\<rparr> False 0 [] ([[[1], [0]], [[2], [3]]] :: tensor3) [1, 2] = Inl AttributeError"
    by blast+
  from c t2 have c': "RNNEncoder_init 1 1 2 ''LSTM'' 2 = Inl ValueError"
    by simp
  from b t2 have b': "\<exists>enc. RNNEncoder_init 1 1 1 ''LSTM'' 2 = Inr enc
          \<and> RNNEncoder_forward ?run enc False 0 [] ([[[1], [0]], [[2], [3]]] :: tensor3) [1, 2] = Inl ValueError"
    by auto
  from d t2 have d': "\<exists>enc r. RNNEncoder_init 1 1 1 ''LSTM'' 1 = Inr enc
          \<and> RNNEncoder_forward ?run enc False 0 [] ([[[1], [0]], [[2], [3]]] :: tensor3) [1, 2] = Inr r \<and> is_tensor3 2 2 (2 * 1) r"
    by auto
  from x rng' lib t1 a' t2 c' b' d' show ?thesis by simp
qed

subsection \<open>The two character embeddings, and evaluation mode\<close>

text \<open>
  Claim C9. \<^verbatim>\<open>EmbeddingChar\<close> and \<^verbatim>\<open>Embedding_Char\<close> are the same function: built from the
  same arguments with the same parameter values they are the same object, and on the same
  object, the same word indices and the same character indices (and, in training, the same
  dropout draw) their forward passes return the same result.
\<close>

theorem EmbeddingChar_Embedding_Char_equal:
  "EmbeddingChar_init word_vectors char_vectors hidden_size drop_prob v
     = Embedding_Char_init word_vectors char_vectors hidden_size drop_prob v
   \<and> EmbeddingChar_forward self training keep x_word x_char
     = Embedding_Char_forward self training keep x_word x_char"
  by (simp add: EmbeddingChar_init_def Embedding_Char_init_def
      EmbeddingChar_forward_def Embedding_Char_forward_def)

lemma dropout_eval_any: "dropout keep x p False = dropout keep' x p False"
  by (simp add: dropout_def)

text \<open>
  Claim C8. With the training flag false, dropout with a rate in \<open>[0, 1]\<close> returns its input,
  and the forward passes of \<^verbatim>\<open>Embedding\<close>, \<^verbatim>\<open>EmbeddingChar\<close>, \<^verbatim>\<open>RNNEncoder\<close> and
  \<^verbatim>\<open>get_similarity_matrix\<close> do not depend on the random draws: two runs on the same
  input return the same result. For \<^verbatim>\<open>RNNEncoder\<close> the recurrent module is one that
  does not read its random source in evaluation mode.
\<close>

theorem eval_mode_deterministic:
  "(0 \<le> p \<and> p \<le> 1 \<longrightarrow> dropout keep t p False = Inr t)
   \<and> Embedding_forward emb False keep x_word = Embedding_forward emb False keep' x_word
   \<and> EmbeddingChar_forward emb_char False keep x_word x_char
       = EmbeddingChar_forward emb_char False keep' x_word x_char
   \<and> ((\<forall>m s s' seqs. run m False s seqs = run m False s' seqs) \<longrightarrow>
        RNNEncoder_forward run enc False seed keep x lengths
          = RNNEncoder_forward run enc False seed' keep' x lengths)
   \<and> get_similarity_matrix att False keep_c keep_q c q
       = get_similarity_matrix att False keep_c' keep_q' c q"
proof (intro conjI impI)
  assume "0 \<le> p \<and> p \<le> 1"
  then show "dropout keep t p False = Inr t" by (simp add: dropout_def)
next
  show "Embedding_forward emb False keep x_word = Embedding_forward emb False keep' x_word"
    unfolding Embedding_forward_def
    by (simp add: dropout_eval_any[of keep _ _ keep'] cong: sum.case_cong)
next
  show "EmbeddingChar_forward emb_char False keep x_word x_char
       = EmbeddingChar_forward emb_char False keep' x_word x_char"
    unfolding EmbeddingChar_forward_def
    by (simp add: dropout_eval_any[of keep _ _ keep'] cong: sum.case_cong)
next
  assume det: "\<forall>m s s' seqs. run m False s seqs = run m False s' seqs"
  then have r: "run m False seed seqs = run m False seed' seqs" for m seqs by blast
  show "RNNEncoder_forward run enc False seed keep x lengths
          = RNNEncoder_forward run enc False seed' keep' x lengths"
    unfolding RNNEncoder_forward_def
    by (simp add: dropout_eval_any[of keep _ _ keep'] r[symmetric] cong: sum.case_cong option.case_cong)
next
  show "get_similarity_matrix att False keep_c keep_q c q
       = get_similarity_matrix att False keep_c' keep_q' c q"
    unfolding get_similarity_matrix_def
    by (simp add: dropout_eval_any[of keep_c _ _ keep_c'] dropout_eval_any[of keep_q _ _ keep_q']
        cong: sum.case_cong)
qed

theorem eval_mode_deterministic_witness:
  "dropout [[[True]]] [[[3]]] (1/2) False = Inr [[[3]]]
   \<and> RNNEncoder_forward (\<lambda>m training seed seqs. map (map (\<lambda>r. [sum_list r, sum_list r])) seqs) \<lparr>enc_drop_prob = 1/2, rnn = Some (TorchRNN GRU 1 1 1 True True 0)\<rparr> False 0 [] ([[[1], [0]], [[2], [3]]] :: tensor3) [1, 2]
     = RNNEncoder_forward (\<lambda>m training seed seqs. map (map (\<lambda>r. [sum_list r, sum_list r])) seqs) \<lparr>enc_drop_prob = 1/2, rnn = Some (TorchRNN GRU 1 1 1 True True 0)\<rparr> False 7 [[[False]]] ([[[1], [0]], [[2], [3]]] :: tensor3) [1, 2]"
proof -
  let ?run = "(\<lambda>m training seed seqs. map (map (\<lambda>r. [sum_list r, sum_list r])) seqs)"
  have det: "\<forall>m s s' seqs. ?run m False s seqs = ?run m False s' seqs" by simp
  have p: "(0::real) \<le> 1/2 \<and> (1/2::real) \<le> 1" by simp
  note inst = eval_mode_deterministic[where p = "1/2" and keep = "[[[True]]]" and t = "[[[3]]]"]
  note inst2 = eval_mode_deterministic[where run = ?run and enc = "\<lparr>enc_drop_prob = 1/2, rnn = Some (TorchRNN GRU 1 1 1 True True 0)\<rparr>" and seed = 0 and keep = "[]"
      and x = "([[[1], [0]], [[2], [3]]] :: tensor3)" and lengths = "[1, 2]" and seed' = 7 and keep' = "[[[False]]]"]
  from inst p have a: "dropout [[[True]]] [[[3]]] (1/2) False = Inr [[[3]]]" by blast
  from inst2 det have b: "RNNEncoder_forward ?run \<lparr>enc_drop_prob = 1/2, rnn = Some (TorchRNN GRU 1 1 1 True True 0)\<rparr> False 0 [] ([[[1], [0]], [[2], [3]]] :: tensor3) [1, 2]
     = RNNEncoder_forward ?run \<lparr>enc_drop_prob = 1/2, rnn = Some (TorchRNN GRU 1 1 1 True True 0)\<rparr> False 7 [[[False]]] ([[[1], [0]], [[2], [3]]] :: tensor3) [1, 2]" by blast
  from a b show ?thesis by blast
qed

subsection \<open>CNN: convolution, rectification and the maximum over positions\<close>

lemma sum_list_map2_nth:
  assumes "length xs = n" "length ys = n"
  shows "sum_list (map2 f xs ys) = (\<Sum>i<n. f (xs ! i) (ys ! i))"
proof -
  have "sum_list (map2 f xs ys) = (\<Sum>i = 0..<length (map2 f xs ys). map2 f xs ys ! i)"
    by (rule sum_list_sum_nth)
  also have "\<dots> = (\<Sum>i<n. f (xs ! i) (ys ! i))"
    using assms by (intro sum.cong) auto
  finally show ?thesis .
qed

lemma size2_tensor3: "is_tensor3 b r c T \<Longrightarrow> 0 < b \<Longrightarrow> 0 < r \<Longrightarrow> size2 T = c"
  by (cases T; cases "hd T") (auto simp: size2_def size1_def is_tensor3_def is_mat_def)

lemma conv_window:
  assumes "length xc = W" "t + k \<le> W"
  shows "dot (map (\<lambda>j. w j) [0..<k]) (take k (drop t xc)) = (\<Sum>j<k. w j * xc ! (t + j))"
proof -
  have "dot (map (\<lambda>j. w j) [0..<k]) (take k (drop t xc))
          = (\<Sum>j<k. map (\<lambda>j. w j) [0..<k] ! j * take k (drop t xc) ! j)"
    using assms by (intro dot_sum_nth) simp_all
  also have "\<dots> = (\<Sum>j<k. w j * xc ! (t + j))"
    using assms by (intro sum.cong) simp_all
  finally show ?thesis .
qed

lemma conv_entry:
  assumes Xn: "is_mat c_in W Xn" and t: "t + k \<le> W"
  shows "sum_list (map2 (\<lambda>wc xc. dot wc (take k (drop t xc)))
                        (map (\<lambda>c. map (\<lambda>j. w c j) [0..<k]) [0..<c_in]) Xn)
         = (\<Sum>c<c_in. \<Sum>j<k. w c j * Xn ! c ! (t + j))"
proof -
  have "sum_list (map2 (\<lambda>wc xc. dot wc (take k (drop t xc)))
                        (map (\<lambda>c. map (\<lambda>j. w c j) [0..<k]) [0..<c_in]) Xn)
        = (\<Sum>c<c_in. dot (map (\<lambda>c. map (\<lambda>j. w c j) [0..<k]) [0..<c_in] ! c) (take k (drop t (Xn ! c))))"
    using Xn by (intro sum_list_map2_nth) (simp_all add: is_matD)
  also have "\<dots> = (\<Sum>c<c_in. \<Sum>j<k. w c j * Xn ! c ! (t + j))"
  proof (intro sum.cong refl)
    fix c assume "c \<in> {..<c_in}"
    then have c: "c < c_in" by simp
    then have "length (Xn ! c) = W" using Xn by (simp add: is_matD)
    from conv_window[OF this t, of "w c"] c
    show "dot (map (\<lambda>c. map (\<lambda>j. w c j) [0..<k]) [0..<c_in] ! c) (take k (drop t (Xn ! c)))
            = (\<Sum>j<k. w c j * Xn ! c ! (t + j))"
      by simp
  qed
  finally show ?thesis .
qed

lemma Conv1d_forward_nn:
  assumes X: "is_tensor3 b c_in W X" and k: "k \<le> W" and pos: "0 < b" "0 < c_in"
  shows "Conv1d_forward (nn_Conv1d c_in f k w bs) X
         = Inr (map (\<lambda>Xn. map (\<lambda>oc. map (\<lambda>t. bs oc + (\<Sum>c<c_in. \<Sum>j<k. w oc c j * Xn ! c ! (t + j)))
                                        [0..<W - k + 1]) [0..<f]) X)"
proof -
  have W: "size2 X = W" by (rule size2_tensor3[OF X pos])
  have row: "map2 (\<lambda>wo bo. map (\<lambda>t. bo + sum_list (map2 (\<lambda>wc xc. dot wc (take k (drop t xc))) wo Xn))
                               [0..<W - k + 1])
               (map (\<lambda>oc. map (\<lambda>c. map (\<lambda>j. w oc c j) [0..<k]) [0..<c_in]) [0..<f]) (map bs [0..<f])
           = map (\<lambda>oc. map (\<lambda>t. bs oc + (\<Sum>c<c_in. \<Sum>j<k. w oc c j * Xn ! c ! (t + j)))
                                        [0..<W - k + 1]) [0..<f]"
    if "Xn \<in> set X" for Xn
  proof -
    have Xn: "is_mat c_in W Xn" by (rule is_tensor3D(3)[OF X that])
    show ?thesis
      unfolding map2_map_same
    proof (intro map_cong refl)
      fix oc t assume "t \<in> set [0..<W - k + 1]"
      then have "t + k \<le> W" using k by auto
      from conv_entry[OF Xn this, of "w oc"]
      show "bs oc + sum_list (map2 (\<lambda>wc xc. dot wc (take k (drop t xc)))
                                   (map (\<lambda>c. map (\<lambda>j. w oc c j) [0..<k]) [0..<c_in]) Xn)
            = bs oc + (\<Sum>c<c_in. \<Sum>j<k. w oc c j * Xn ! c ! (t + j))"
        by simp
    qed
  qed
  show ?thesis
    unfolding Conv1d_forward_def Let_def W
    using k row by (simp add: nn_Conv1d_def cong: map_cong)
qed

text \<open>
  Claim C7. On a batch of shape \<open>(b, char_emb_size, W)\<close> with \<open>W\<close> at least the kernel width
  \<open>k\<close>, \<^verbatim>\<open>CNN.forward\<close> returns one vector per word, of width the number of filters
  whatever \<open>W\<close> is; each entry is the maximum over the \<open>W - k + 1\<close> positions of the rectified
  convolution. The \<^verbatim>\<open>CNN\<close> that \<^verbatim>\<open>EmbeddingChar\<close> builds has kernel width 5 and as many
  filters as the word embedding has features.
\<close>

theorem CNN_forward_feature_width:
  assumes X: "is_tensor3 b c_in W X" and k: "k \<le> W" and pos: "0 < b" "0 < c_in"
  shows "(\<exists>out. CNN_forward (CNN_init c_in f k w bs) X = Inr out \<and> is_mat b f out
            \<and> (\<forall>n<b. \<forall>oc<f.
                  out ! n ! oc
                    = Max ((\<lambda>t. relu (bs oc + (\<Sum>c<c_in. \<Sum>j<k. w oc c j * X ! n ! c ! (t + j))))
                             ` {..W - k})))
       \<and> kernel_size (conv1D (cnn (EmbeddingChar_init word_vectors char_vectors hidden_size drop_prob v))) = 5
       \<and> out_channels (conv1D (cnn (EmbeddingChar_init word_vectors char_vectors hidden_size drop_prob v)))
           = size1 word_vectors"
proof -
  let ?g = "\<lambda>Xn oc t. relu (bs oc + (\<Sum>c<c_in. \<Sum>j<k. w oc c j * Xn ! c ! (t + j)))"
  let ?act = "map (\<lambda>Xn. map (\<lambda>oc. map (?g Xn oc) [0..<W - k + 1]) [0..<f]) X"
  let ?out = "map (\<lambda>Xn. map (\<lambda>oc. Max (set (map (?g Xn oc) [0..<W - k + 1]))) [0..<f]) X"
  have conv: "Conv1d_forward (conv1D (CNN_init c_in f k w bs)) X
         = Inr (map (\<lambda>Xn. map (\<lambda>oc. map (\<lambda>t. bs oc + (\<Sum>c<c_in. \<Sum>j<k. w oc c j * Xn ! c ! (t + j)))
                                        [0..<W - k + 1]) [0..<f]) X)"
    unfolding CNN_init_def using Conv1d_forward_nn[OF X k pos] by simp
  have act: "map3 relu (map (\<lambda>Xn. map (\<lambda>oc. map (\<lambda>t. bs oc + (\<Sum>c<c_in. \<Sum>j<k. w oc c j * Xn ! c ! (t + j)))
                                        [0..<W - k + 1]) [0..<f]) X) = ?act"
    by (simp add: map3_def comp_def)
  have mx: "max_dim2 ?act = Inr ?out"
    by (simp add: max_dim2_def list_all_iff comp_def)
  have run: "CNN_forward (CNN_init c_in f k w bs) X = Inr ?out"
    unfolding CNN_forward_def conv sum.case act by (rule mx)
  have lX: "length X = b" using X by (simp add: is_tensor3D(1))
  have shape: "is_mat b f ?out"
    using lX by (simp add: is_mat_iff_nth)
  have win: "{..W - k} = insert (W - k) {0..<W - k}" by auto
  have entry: "?out ! n ! oc = Max (?g (X ! n) oc ` {..W - k})" if "n < b" "oc < f" for n oc
    using that lX by (simp add: win)
  have emb: "kernel_size (conv1D (cnn (EmbeddingChar_init word_vectors char_vectors hidden_size drop_prob v))) = 5"
    "out_channels (conv1D (cnn (EmbeddingChar_init word_vectors char_vectors hidden_size drop_prob v)))
           = size1 word_vectors"
    by (simp_all add: EmbeddingChar_init_def CNN_init_def nn_Conv1d_def Let_def)
  from run shape entry emb show ?thesis by blast
qed

theorem CNN_forward_feature_width_witness:
  "is_tensor3 1 1 6 ([[[1, 2, 3, 4, 5, - 20]]] :: tensor3)
   \<and> (\<exists>out. CNN_forward (CNN_init 1 1 5 (\<lambda>f c j. 1) (\<lambda>f. 0)) [[[1, 2, 3, 4, 5, - 20]]] = Inr out
          \<and> is_mat 1 1 out \<and> out ! 0 ! 0 = 15)"
proof -
  have X: "is_tensor3 1 1 6 ([[[1, 2, 3, 4, 5, - 20]]] :: tensor3)"
    by (simp add: is_tensor3_def is_mat_def)
  have k: "(5::nat) \<le> 6" and pos: "0 < (1::nat)" by simp_all
  have u: "{..Suc 0} = {0, Suc 0}" by auto
  have s5: "(\<Sum>j<5. g j) = g 0 + g 1 + g 2 + g 3 + g (4::nat)" for g :: "nat \<Rightarrow> real"
    by (simp add: eval_nat_numeral)
  from CNN_forward_feature_width[OF X k pos pos, of 1 "\<lambda>f c j. 1" "\<lambda>f. 0"]
  obtain out where out: "CNN_forward (CNN_init 1 1 5 (\<lambda>f c j. 1) (\<lambda>f. 0)) [[[1, 2, 3, 4, 5, - 20]]] = Inr out"
    "is_mat 1 1 out"
    "\<forall>n<1. \<forall>oc<1. out ! n ! oc
        = Max ((\<lambda>t. relu (0 + (\<Sum>c<1. \<Sum>j<5. 1 * [[[1, 2, 3, 4, 5, - 20]]] ! n ! c ! (t + j)))) ` {..6 - 5})"
    by blast
  from out(3) have "out ! 0 ! 0
        = Max ((\<lambda>t. relu (0 + (\<Sum>c<1. \<Sum>j<5. 1 * [[[1, 2, 3, 4, 5, - 20::real]]] ! 0 ! c ! (t + j)))) ` {..6 - 5})"
    by blast
  also have "\<dots> = 15"
    by (simp add: u s5 relu_def)
  finally have "out ! 0 ! 0 = 15" .
  with X out(1,2) show ?thesis by blast
qed

subsection \<open>BiDAFOutput: the squeezed logits\<close>

lemma Linear_forward_scalar_shape:
  assumes "is_tensor3 B L n x"
  shows "is_tensor3 B L 1 (Linear_forward (nn_Linear n_in 1 True w b) x)"
  using assms
  by (simp add: is_tensor3_iff_nth Linear_forward_def Linear_vec_def nn_Linear_def)

lemma tensor_of_dims:
  assumes "is_tensor3 B L W t" "0 < B" "0 < L"
  shows "dims (tensor_of t) = [B, L, W]"
  using assms size1_tensor3[OF assms(1,2)] size2_tensor3[OF assms]
  by (simp add: tensor_of_def is_tensor3D(1))

lemma squeeze_logits_dims:
  assumes "is_tensor3 B L 1 t" "0 < B" "0 < L"
  shows "dims (squeeze (tensor_of t)) = filter (\<lambda>d. d \<noteq> 1) [B, L]"
  by (simp add: squeeze_def tensor_of_dims[OF assms])

lemma mask_sum_lengths:
  assumes "is_mat B L mask'" "\<forall>row \<in> set mask'. True \<in> set row"
  shows "length (map (\<lambda>row. length (filter (\<lambda>v. v) row)) mask') = B"
    and "\<forall>l \<in> set (map (\<lambda>row. length (filter (\<lambda>v. v) row)) mask'). 0 < l \<and> l \<le> L"
proof -
  show "length (map (\<lambda>row. length (filter (\<lambda>v. v) row)) mask') = B"
    using assms(1) by (simp add: is_matD)
  show "\<forall>l \<in> set (map (\<lambda>row. length (filter (\<lambda>v. v) row)) mask'). 0 < l \<and> l \<le> L"
  proof
    fix l assume "l \<in> set (map (\<lambda>row. length (filter (\<lambda>v. v) row)) mask')"
    then obtain row where row: "row \<in> set mask'" "l = length (filter (\<lambda>v. v) row)" by auto
    have "length row = L" using assms(1) row(1) by (simp add: is_matD)
    moreover have "length (filter (\<lambda>v. v) row) \<le> length row" by (rule length_filter_le)
    moreover have "filter (\<lambda>v. v) row \<noteq> []"
      using assms(2) row(1) by (auto simp: filter_empty_conv)
    ultimately show "0 < l \<and> l \<le> L" using row(2) by simp
  qed
qed

lemma BiDAFOutput_init_LSTM:
  assumes "0 < hidden_size"
  shows "BiDAFOutput_init hidden_size drop_prob a1 m1 a2 m2 =
     Inr \<lparr>att_linear_1 = nn_Linear (8 * hidden_size) 1 True (fst a1) (snd a1),
          mod_linear_1 = nn_Linear (2 * hidden_size) 1 True (fst m1) (snd m1),
          out_rnn = \<lparr>enc_drop_prob = drop_prob,
                      rnn = Some (TorchRNN LSTM (2 * hidden_size) hidden_size 1 True True 0)\<rparr>,
          att_linear_2 = nn_Linear (8 * hidden_size) 1 True (fst a2) (snd a2),
          mod_linear_2 = nn_Linear (2 * hidden_size) 1 True (fst m2) (snd m2)\<rparr>"
  using assms
  by (simp add: BiDAFOutput_init_def RNNEncoder_init_def with_module_def nn_RNNBase_def)

text \<open>
  \<^verbatim>\<open>BiDAFOutput.forward\<close> squeezes every axis of size one out of the logits of shape
  \<open>(B, L, 1)\<close> before the masked log-softmax: the tensor the helper is given has shape
  \<open>(B, L)\<close> when \<open>B \<ge> 2\<close> and \<open>L \<ge> 2\<close>; with \<open>B = 1\<close> the batch axis is gone as well, and
  with \<open>L = 1\<close> the position axis. What the helper returns for these tensors is not part of
  the sources.
\<close>

lemma BiDAFOutput_forward_squeezed_logits:
  assumes hs: "0 < hidden_size"
    and p: "0 \<le> drop_prob" "drop_prob \<le> 1"
    and att: "is_tensor3 B L (8 * hidden_size) att"
    and md: "is_tensor3 B L (2 * hidden_size) mod_1"
    and mask: "is_mat B L mask'" "\<forall>row \<in> set mask'. True \<in> set row"
    and B: "0 < B"
    and lib: "torch_contract run"
    and keep: "training \<longrightarrow> is_tensor3 B L (2 * hidden_size) keep"
  shows "\<exists>self logits_1 logits_2.
           BiDAFOutput_init hidden_size drop_prob a1 m1 a2 m2 = Inr self
         \<and> BiDAFOutput_forward run masked_log_softmax self training seed keep att mod_1 mask'
             = Inr (masked_log_softmax logits_1 mask', masked_log_softmax logits_2 mask')
         \<and> dims logits_1 = dims logits_2
         \<and> (2 \<le> B \<and> 2 \<le> L \<longrightarrow> dims logits_1 = [B, L])
         \<and> (B = 1 \<and> 2 \<le> L \<longrightarrow> dims logits_1 = [L])
         \<and> (2 \<le> B \<and> L = 1 \<longrightarrow> dims logits_1 = [B])
         \<and> (B = 1 \<and> L = 1 \<longrightarrow> dims logits_1 = [])"
proof -
  let ?m = "TorchRNN LSTM (2 * hidden_size) hidden_size 1 True True 0"
  let ?enc = "\<lparr>enc_drop_prob = drop_prob, rnn = Some ?m\<rparr>"
  let ?a1 = "nn_Linear (8 * hidden_size) 1 True (fst a1) (snd a1)"
  let ?m1 = "nn_Linear (2 * hidden_size) 1 True (fst m1) (snd m1)"
  let ?a2 = "nn_Linear (8 * hidden_size) 1 True (fst a2) (snd a2)"
  let ?m2 = "nn_Linear (2 * hidden_size) 1 True (fst m2) (snd m2)"
  let ?self = "\<lparr>att_linear_1 = ?a1, mod_linear_1 = ?m1, out_rnn = ?enc,
                 att_linear_2 = ?a2, mod_linear_2 = ?m2\<rparr>"
  let ?lengths = "map (\<lambda>row. length (filter (\<lambda>v. v) row)) mask'"
  have init: "BiDAFOutput_init hidden_size drop_prob a1 m1 a2 m2 = Inr ?self"
    by (rule BiDAFOutput_init_LSTM[OF hs])
  have L: "0 < L"
  proof -
    from mask(1) B obtain row where row: "row \<in> set mask'" "length row = L"
      by (cases mask') (auto simp: is_mat_def)
    with mask(2) have "row \<noteq> []" by auto
    with row(2) show ?thesis by auto
  qed
  have m: "rnn ?enc = Some ?m" by simp
  have cell: "is_cell run ?m hidden_size" by (rule torch_contract_cell[OF lib])
  note lens = mask_sum_lengths[OF mask]
  from RNNEncoder_forward_steps[OF md B lens m cell refl refl, of training seed keep]
  obtain y where y: "RNNEncoder_forward run ?enc training seed keep mod_1 ?lengths
                       = dropout keep y drop_prob training"
    "is_tensor3 B L (2 * hidden_size) y"
    by auto
  from dropout_shape[OF p y(2) keep] obtain mod_2
    where mod_2: "dropout keep y drop_prob training = Inr mod_2" "is_tensor3 B L (2 * hidden_size) mod_2"
    by blast
  let ?logits_1 = "ew3 (+) (Linear_forward ?a1 att) (Linear_forward ?m1 mod_1)"
  let ?logits_2 = "ew3 (+) (Linear_forward ?a2 att) (Linear_forward ?m2 mod_2)"
  let ?s1 = "squeeze (tensor_of ?logits_1)"
  let ?s2 = "squeeze (tensor_of ?logits_2)"
  have run: "BiDAFOutput_forward run masked_log_softmax ?self training seed keep att mod_1 mask'
               = Inr (masked_log_softmax ?s1 mask', masked_log_softmax ?s2 mask')"
    unfolding BiDAFOutput_forward_def Let_def by (simp add: y(1) mod_2(1))
  have l1: "is_tensor3 B L 1 ?logits_1"
    by (intro is_tensor3_ew3 Linear_forward_scalar_shape[OF att] Linear_forward_scalar_shape[OF md])
  have l2: "is_tensor3 B L 1 ?logits_2"
    by (intro is_tensor3_ew3 Linear_forward_scalar_shape[OF att] Linear_forward_scalar_shape[OF mod_2(2)])
  have d1: "dims ?s1 = filter (\<lambda>d. d \<noteq> 1) [B, L]"
    by (rule squeeze_logits_dims[OF l1 B L])
  have d2: "dims ?s2 = filter (\<lambda>d. d \<noteq> 1) [B, L]"
    by (rule squeeze_logits_dims[OF l2 B L])
  have "dims ?s1 = dims ?s2" by (simp only: d1 d2)
  moreover have "2 \<le> B \<and> 2 \<le> L \<longrightarrow> dims ?s1 = [B, L]" unfolding d1 by auto
  moreover have "B = 1 \<and> 2 \<le> L \<longrightarrow> dims ?s1 = [L]" unfolding d1 by auto
  moreover have "2 \<le> B \<and> L = 1 \<longrightarrow> dims ?s1 = [B]" unfolding d1 by auto
  moreover have "B = 1 \<and> L = 1 \<longrightarrow> dims ?s1 = []" unfolding d1 by auto
  ultimately show ?thesis using init run by blast
qed

end
